theory Spec2Isabelle
  imports Main "HOL-Library.Sublist" "HOL-Library.AList"
begin

section \<open>Text and numbers\<close>

text \<open>
  JavaScript strings are modelled as \<open>string\<close>; one \<open>char\<close> stands for one code unit of
  the strings received from outside. The pictographs of the fixed message texts are written as
  their UTF-8 bytes. Template literals \<open>${n}\<close> of a number print its decimal digits.
\<close>

definition digit :: "nat \<Rightarrow> char" where
  "digit d = ''0123456789'' ! d"

fun show_nat :: "nat \<Rightarrow> string" where
  "show_nat n = (if n < 10 then [digit n] else show_nat (n div 10) @ [digit (n mod 10)])"

declare show_nat.simps [simp del]

definition show_int :: "int \<Rightarrow> string" where
  "show_int i = (if i < 0 then CHR ''-'' # show_nat (nat (- i)) else show_nat (nat i))"

definition newline :: string where
  "newline = [CHR 0x0A]"

definition glyph_check :: string where
  "glyph_check = [CHR 0xE2, CHR 0x9C, CHR 0x85]"

definition glyph_cross :: string where
  "glyph_cross = [CHR 0xE2, CHR 0x9D, CHR 0x8C]"

definition glyph_warning :: string where
  "glyph_warning = [CHR 0xE2, CHR 0x9A, CHR 0xA0, CHR 0xEF, CHR 0xB8, CHR 0x8F]"

definition glyph_siren :: string where
  "glyph_siren = [CHR 0xF0, CHR 0x9F, CHR 0x9A, CHR 0xA8]"


definition glyph_chart :: string where
  "glyph_chart = [CHR 0xF0, CHR 0x9F, CHR 0x93, CHR 0x8A]"


definition glyph_bell :: string where
  "glyph_bell = [CHR 0xF0, CHR 0x9F, CHR 0x94, CHR 0x94]"

definition glyph_rocket :: string where
  "glyph_rocket = [CHR 0xF0, CHR 0x9F, CHR 0x9A, CHR 0x80]"

definition glyph_calendar :: string where
  "glyph_calendar = [CHR 0xF0, CHR 0x9F, CHR 0x93, CHR 0x85]"

definition glyph_medal :: string where
  "glyph_medal = [CHR 0xF0, CHR 0x9F, CHR 0x8E, CHR 0x96, CHR 0xEF, CHR 0xB8, CHR 0x8F]"

definition glyph_people :: string where
  "glyph_people = [CHR 0xF0, CHR 0x9F, CHR 0x91, CHR 0xA5]"

definition glyph_lock :: string where
  "glyph_lock = [CHR 0xF0, CHR 0x9F, CHR 0x94, CHR 0x92]"

definition glyph_stopwatch :: string where
  "glyph_stopwatch = [CHR 0xE2, CHR 0x8F, CHR 0xB1, CHR 0xEF, CHR 0xB8, CHR 0x8F]"

definition glyph_computer :: string where
  "glyph_computer = [CHR 0xF0, CHR 0x9F, CHR 0x92, CHR 0xBB]"

definition glyph_gamepad :: string where
  "glyph_gamepad = [CHR 0xF0, CHR 0x9F, CHR 0x8E, CHR 0xAE]"

definition glyph_question :: string where
  "glyph_question = [CHR 0xE2, CHR 0x9D, CHR 0x93]"

definition glyph_le :: string where
  "glyph_le = [CHR 0xE2, CHR 0x89, CHR 0xA4]"

text \<open>\<open>str || fallback\<close> and \<open>!str\<close> on a possibly absent string: absent and empty are falsy.\<close>

fun truthy :: "string option \<Rightarrow> bool" where
  "truthy None = False"
| "truthy (Some s) = (s \<noteq> [])"

fun orElse :: "string option \<Rightarrow> string \<Rightarrow> string" where
  "orElse None fallback = fallback"
| "orElse (Some s) fallback = (if s = [] then fallback else s)"

section \<open>Data received from the remote API\<close>

text \<open>
  A VIP record as the API lists it: \<open>player_id\<close> and \<open>name\<close> are texts, \<open>expiration\<close> and
  \<open>description\<close> may be \<open>null\<close>. The status answer has the server's \<open>name\<close> (the field
  \<open>server_name\<close> here) and its player counts. The export endpoint yields a text.
\<close>

record vip =
  player_id :: string
  name :: string
  expiration :: "string option"
  description :: "string option"

record status =
  server_name :: "string option"
  player_count :: nat
  player_count_max :: nat

text \<open>
  What \<open>axios(config)\<close> yields for one request: a body that is an object with a \<open>result\<close>
  key (with its \<open>failed\<close> flag and \<open>error\<close> text), any other body, or a rejection carrying
  the response status, the \<open>error\<close> text of the response body and the error message.
  An absent payload (\<open>null\<close>) is \<open>None\<close>.
\<close>

datatype 'a http_response =
    Enveloped "'a option" bool "string option"
  | Bare "'a option"
  | Rejected "nat option" "string option" string

section \<open>The environment and the world\<close>

text \<open>
  Everything the process reads from outside is a field of \<open>env\<close>. The oracles that may answer
  differently from call to call are indexed by the number of the outside interaction
  (\<open>tick\<close>). \<open>clock\<close> is \<open>new Date()\<close> in milliseconds since the epoch, \<open>toISOString\<close> and
  \<open>parseDate\<close> are the runtime's date printer and parser (\<open>None\<close> is an invalid date),
  \<open>tzaUtc\<close> and \<open>tzaLocal\<close> are the local time zone offsets of ECMAScript's
  \<open>LocalTime\<close> and \<open>UTC\<close>, and \<open>cronValidate\<close> is the scheduling library's validator.
  Whether \<open>fs.stat\<close> or \<open>fs.unlink\<close> of a name throws is decided outside at each call
  (\<open>statFails\<close>, \<open>unlinkFails\<close>).
\<close>

record env =
  apiToken :: "string option"
  webhookUrl :: "string option"
  backupSchedule :: string
  alertSchedule :: string
  retentionDays :: int
  cronValidate :: "string \<Rightarrow> bool"
  clock :: "nat \<Rightarrow> int"
  toISOString :: "int \<Rightarrow> string"
  parseDate :: "string \<Rightarrow> int option"
  tzaUtc :: "int \<Rightarrow> int"
  tzaLocal :: "int \<Rightarrow> int"
  getStatus :: "nat \<Rightarrow> status http_response"
  downloadVips :: "nat \<Rightarrow> string http_response"
  getVipIds :: "nat \<Rightarrow> vip list http_response"
  webhookError :: "nat \<Rightarrow> string option"
  mkdirError :: "nat \<Rightarrow> string option"
  writeError :: "nat \<Rightarrow> string option"
  statFails :: "nat \<Rightarrow> string \<Rightarrow> bool"
  unlinkFails :: "nat \<Rightarrow> string \<Rightarrow> bool"

record entry =
  mtime :: int
  content :: string

text \<open>The backup directory: missing, or present (readable or not) with its named entries.\<close>

datatype directory = Missing | Present bool "(string \<times> entry) list"

datatype level = LInfo | LSuccess | LError | LWarning

text \<open>
  Console output: a line of \<open>VIPManager.log\<close>, a line of \<open>VIPService.log\<close>, or a bare
  \<open>console.log\<close>. The time stamp and the pictograph that \<open>log\<close> puts in front are left out.
\<close>

datatype line = Log level string | ServiceLog level string | Print string

record notification =
  title :: string
  body :: string
  colour :: nat

record world =
  tick :: nat
  dir :: directory
  stdout :: "line list"
  requests :: "string list"
  webhook :: "notification list"

definition log :: "level \<Rightarrow> string \<Rightarrow> world \<Rightarrow> world" where
  "log l message w = w\<lparr>stdout := stdout w @ [Log l message]\<rparr>"

definition print :: "string \<Rightarrow> world \<Rightarrow> world" where
  "print message w = w\<lparr>stdout := stdout w @ [Print message]\<rparr>"

definition newDate :: "env \<Rightarrow> world \<Rightarrow> int \<times> world" where
  "newDate e w = (clock e (tick w), w\<lparr>tick := Suc (tick w)\<rparr>)"

section \<open>Dates\<close>

definition msPerDay :: int where
  "msPerDay = 1000 * 60 * 60 * 24"

definition timeClip :: "int \<Rightarrow> int option" where
  "timeClip t = (if \<bar>t\<bar> \<le> 8640000000000000 then Some t else None)"

text \<open>
  \<open>d.setDate(d.getDate() - keepDays)\<close> on a valid date: the local time is moved back by
  whole days and converted back, then clipped to the range of dates.
\<close>

definition setDateBack :: "env \<Rightarrow> int \<Rightarrow> int \<Rightarrow> int option" where
  "setDateBack e t keepDays =
     (let local = t + tzaUtc e t;
          newDate = local - keepDays * msPerDay
      in timeClip (newDate - tzaLocal e newDate))"

text \<open>\<open>a < b\<close> on dates: false when the right one is invalid.\<close>

fun dateBefore :: "int \<Rightarrow> int option \<Rightarrow> bool" where
  "dateBefore t None = False"
| "dateBefore t (Some c) = (t < c)"

section \<open>The file system of the backup directory\<close>

fun readdir :: "directory \<Rightarrow> string list" where
  "readdir Missing = []"
| "readdir (Present readable es) = (if readable then map fst es else [])"

text \<open>
  \<open>fs.stat\<close> and \<open>fs.unlink\<close> of a name in the backup directory; \<open>None\<close> is an error thrown.
  Besides a missing entry, the outside decides at each call whether it throws: a sweep
  examines every listed name once and removes it at most once, so the answer is read at the
  tick of the sweep and the name.
\<close>

definition stat :: "env \<Rightarrow> world \<Rightarrow> string \<Rightarrow> entry option" where
  "stat e w f =
     (case dir w of
        Missing \<Rightarrow> None
      | Present readable es \<Rightarrow>
          (case map_of es f of
             None \<Rightarrow> None
           | Some x \<Rightarrow> if statFails e (tick w) f then None else Some x))"

definition unlink :: "env \<Rightarrow> world \<Rightarrow> string \<Rightarrow> directory option" where
  "unlink e w f =
     (case dir w of
        Missing \<Rightarrow> None
      | Present readable es \<Rightarrow>
          (case map_of es f of
             None \<Rightarrow> None
           | Some x \<Rightarrow>
               if unlinkFails e (tick w) f then None
               else Some (Present readable (AList.delete f es))))"

section \<open>VIPManager.cleanupOldBackups\<close>

text \<open>
  The \<open>for\<close> loop over the names listed: an entry whose \<open>stat\<close> or \<open>unlink\<close> throws is
  skipped by the inner \<open>catch\<close>. Nothing else in the outer \<open>try\<close> throws, so its \<open>catch\<close>,
  which would return 0, is never entered.
\<close>

fun cleanupLoop ::
  "env \<Rightarrow> int option \<Rightarrow> string list \<Rightarrow> nat \<times> world \<Rightarrow> nat \<times> world" where
  "cleanupLoop e cutoffDate [] (deletedCount, w) = (deletedCount, w)"
| "cleanupLoop e cutoffDate (f # files) (deletedCount, w) =
     cleanupLoop e cutoffDate files
       (case stat e w f of
          None \<Rightarrow> (deletedCount, w)
        | Some stats \<Rightarrow>
            if dateBefore (mtime stats) cutoffDate then
              (case unlink e w f of
                 None \<Rightarrow> (deletedCount, w)
               | Some d \<Rightarrow>
                   (deletedCount + 1, log LInfo (''Deleted old backup: '' @ f) (w\<lparr>dir := d\<rparr>)))
            else (deletedCount, w))"

definition cleanupOldBackups :: "env \<Rightarrow> int \<Rightarrow> world \<Rightarrow> nat \<times> world" where
  "cleanupOldBackups e keepDays w =
     (let w1 = log LInfo (''Cleaning up backups older than '' @ show_int keepDays @ '' days...'') w;
          files = readdir (dir w1);
          (now, w2) = newDate e w1;
          cutoffDate = setDateBack e now keepDays;
          (deletedCount, w3) = cleanupLoop e cutoffDate files (0, w2)
      in (deletedCount,
          log LSuccess (''Cleanup complete: '' @ show_nat deletedCount @ '' files removed'') w3))"

section \<open>VIPManager: requests and notifications\<close>

text \<open>
  \<open>makeRequest(endpoint)\<close> with the default method and no data, as every caller uses it. The
  answer of \<open>axios\<close> comes from the oracle of the endpoint. An error thrown for a \<open>failed\<close>
  envelope is thrown inside the \<open>try\<close> block, so the \<open>catch\<close> of the same function wraps it
  again. The result is the message of the error thrown, or the payload.
\<close>

definition makeRequest ::
  "env \<Rightarrow> string \<Rightarrow> (nat \<Rightarrow> 'a http_response) \<Rightarrow> world \<Rightarrow> (string + 'a option) \<times> world" where
  "makeRequest e endpoint oracle w =
     (if \<not> truthy (apiToken e) then
        (Inl ''CRCON_API_TOKEN is required for bot authentication'', w)
      else
        let w1 = log LInfo (''Making GET request to '' @ endpoint) w;
            response = oracle (tick w1);
            w2 = w1\<lparr>tick := Suc (tick w1), requests := requests w1 @ [endpoint]\<rparr>
        in (case response of
              Enveloped result failed err \<Rightarrow>
                if failed then
                  (Inl (''Request failed: '' @ orElse err ''CRCON request failed''), w2)
                else (Inr result, w2)
            | Bare payload \<Rightarrow> (Inr payload, w2)
            | Rejected status dataError message \<Rightarrow>
                (Inl (if status = Some 401 then
                        ''API token authentication failed - check your CRCON_API_TOKEN''
                      else if status = Some 403 then
                        ''API token does not have required permissions''
                      else if truthy dataError then ''CRCON error: '' @ orElse dataError []
                      else ''Request failed: '' @ message), w2)))"

text \<open>
  \<open>sendDiscordNotification\<close>: \<open>webhook\<close> collects the embeds posted, whether or not the
  delivery succeeds; the embed's time stamp and constant footer are left out. It never throws.
\<close>

definition discordEmbed :: "string \<Rightarrow> string \<Rightarrow> nat \<Rightarrow> notification" where
  "discordEmbed t descr c = \<lparr>title = glyph_medal @ '' '' @ t, body = descr, colour = c\<rparr>"

definition sendDiscordNotification ::
  "env \<Rightarrow> string \<Rightarrow> string \<Rightarrow> nat \<Rightarrow> world \<Rightarrow> world" where
  "sendDiscordNotification e t descr c w =
     (if \<not> truthy (webhookUrl e) then
        log LInfo ''No Discord webhook configured, skipping notification'' w
      else
        let outcome = webhookError e (tick w);
            w1 = w\<lparr>tick := Suc (tick w), webhook := webhook w @ [discordEmbed t descr c]\<rparr>
        in (case outcome of
              None \<Rightarrow> log LSuccess ''Discord notification sent successfully'' w1
            | Some message \<Rightarrow>
                log LWarning (''Failed to send Discord notification: '' @ message) w1))"

datatype connection = Connected string nat nat | Unreachable string

definition testConnection :: "env \<Rightarrow> world \<Rightarrow> connection \<times> world" where
  "testConnection e w =
     (let w1 = log LInfo ''Testing CRCON connection...'' w;
          (r, w2) = makeRequest e ''/api/get_status'' (getStatus e) w1
      in (case r of
            Inl message \<Rightarrow>
              (Unreachable message,
               log LError (glyph_cross @ '' Connection test failed: '' @ message) w2)
          | Inr None \<Rightarrow>
              (Unreachable ''No status data received'',
               log LError (glyph_cross @ '' Connection test failed: No status data received'') w2)
          | Inr (Some status) \<Rightarrow>
              let serverName = orElse (server_name status) ''Unknown Server'';
                  playerCount = player_count status;
                  maxPlayers = player_count_max status;
                  w3 = log LSuccess (glyph_check @ '' Connected to: '' @ serverName) w2;
                  w4 = log LInfo (glyph_people @ '' Players: '' @ show_nat playerCount @ ''/''
                                    @ show_nat maxPlayers) w3
              in (Connected serverName playerCount maxPlayers, w4)))"

section \<open>VIPManager: writing into the backup directory\<close>

text \<open>
  \<open>fs.mkdir(backupDir, {recursive: true})\<close> and \<open>fs.writeFile\<close>; the result is the message of
  the error thrown, if any. A written file gets the time of the write as modification time.
\<close>

definition mkdir :: "env \<Rightarrow> world \<Rightarrow> string option \<times> world" where
  "mkdir e w =
     (let w1 = w\<lparr>tick := Suc (tick w)\<rparr>
      in (case mkdirError e (tick w) of
            Some message \<Rightarrow> (Some message, w1)
          | None \<Rightarrow>
              (None, w1\<lparr>dir := (case dir w of Missing \<Rightarrow> Present True [] | Present r es \<Rightarrow> Present r es)\<rparr>)))"

definition writeFile :: "env \<Rightarrow> string \<Rightarrow> string \<Rightarrow> world \<Rightarrow> string option \<times> world" where
  "writeFile e filename data w =
     (let w1 = w\<lparr>tick := Suc (tick w)\<rparr>
      in (case writeError e (tick w) of
            Some message \<Rightarrow> (Some message, w1)
          | None \<Rightarrow>
              (case dir w of
                 Missing \<Rightarrow>
                   (Some (''ENOENT: no such file or directory, open backups/'' @ filename), w1)
               | Present r es \<Rightarrow>
                   (None, w1\<lparr>dir := Present r
                      (AList.update filename
                         \<lparr>mtime = clock e (tick w), content = data\<rparr> es)\<rparr>))))"

text \<open>\<open>new Date().toISOString().replace(/[:.]/g, '-')\<close>\<close>

definition fileTimestamp :: "env \<Rightarrow> world \<Rightarrow> string \<times> world" where
  "fileTimestamp e w =
     (let (now, w1) = newDate e w
      in (map (\<lambda>c. if c = CHR '':'' \<or> c = CHR ''.'' then CHR ''-'' else c) (toISOString e now), w1))"

section \<open>VIPManager.formatVipList\<close>

definition permanentVip :: "vip \<Rightarrow> bool" where
  "permanentVip v = (\<not> truthy (expiration v) \<or> expiration v = Some ''None'')"

text \<open>The text that the \<open>forEach\<close> callback appends for one record.\<close>

definition formatVip :: "vip \<Rightarrow> string" where
  "formatVip v =
     (let expirationText =
            (if \<not> permanentVip v then '' (expires: '' @ orElse (expiration v) [] @ '')''
             else '' (permanent)'');
          descriptionText =
            (if truthy (description v) then '' - '' @ orElse (description v) [] else [])
      in player_id v @ '' # '' @ name v @ expirationText @ descriptionText @ newline)"

definition formatVipList :: "env \<Rightarrow> vip list \<Rightarrow> world \<Rightarrow> string \<times> world" where
  "formatVipList e vipList w =
     (let (now, w1) = newDate e w;
          formatted = ''# VIP File Generated '' @ toISOString e now @ newline
            @ ''# Total VIPs: '' @ show_nat (length vipList) @ newline
            @ ''# Format: STEAM_ID_64 # Player_Name (expiration)'' @ newline @ newline
      in (foldl (\<lambda>formatted v. formatted @ formatVip v) formatted vipList, w1))"

section \<open>VIPManager.downloadVipFile\<close>

record download =
  filepath :: string
  filename :: string
  fileSize :: nat

text \<open>The inner \<open>try\<close>: the export endpoint, and the VIP list endpoint when that one throws.\<close>

definition fetchVipData :: "env \<Rightarrow> world \<Rightarrow> (string + string option) \<times> world" where
  "fetchVipData e w =
     (let (r, w1) = makeRequest e ''/api/download_vips'' (downloadVips e) w
      in (case r of
            Inr vipData \<Rightarrow>
              (Inr vipData, log LSuccess ''VIP file downloaded via download_vips endpoint'' w1)
          | Inl ignored \<Rightarrow>
              let w2 = log LWarning ''Download endpoint failed, trying VIP list endpoint...'' w1;
                  (r2, w3) = makeRequest e ''/api/get_vip_ids'' (getVipIds e) w2
              in (case r2 of
                    Inl message \<Rightarrow> (Inl message, w3)
                  | Inr None \<Rightarrow> (Inl ''No VIP data available from either endpoint'', w3)
                  | Inr (Some vipList) \<Rightarrow>
                      let (vipData, w4) = formatVipList e vipList w3
                      in (Inr (Some vipData), log LSuccess ''VIP list retrieved and formatted'' w4))))"




section \<open>VIPManager.analyzeVips\<close>

record platforms =
  pc :: nat
  console :: nat
  unknown :: nat

record analysis =
  total :: nat
  permanent :: nat
  temporary :: nat
  expired :: nat
  expiringSoon :: nat
  expiringToday :: nat
  platforms :: platforms

fun startsWith :: "string \<Rightarrow> string \<Rightarrow> bool" where
  "startsWith s [] = True"
| "startsWith [] (p # ps) = False"
| "startsWith (c # cs) (p # ps) = (c = p \<and> startsWith cs ps)"

text \<open>
  \<open>Math.ceil((expDate - now) / (1000 * 60 * 60 * 24))\<close> of the parsed expiration; \<open>None\<close> is the
  \<open>NaN\<close> of a text that is no date, for which every comparison below is false. Both dates are
  whole milliseconds; for a clock between 1970 and the year 10000 the rounded quotient has the
  ceiling of the exact one, which is the integer computed by \<open>ceilDays\<close>. The ceiling of a
  quotient between -1 and 0 is (minus) zero, which is neither below zero nor different from
  zero.
\<close>

definition ceilDays :: "int \<Rightarrow> int" where
  "ceilDays ms = - ((- ms) div msPerDay)"

definition daysUntilExpiry :: "env \<Rightarrow> int \<Rightarrow> string \<Rightarrow> int option" where
  "daysUntilExpiry e now s =
     (case parseDate e s of
        None \<Rightarrow> None
      | Some expDate \<Rightarrow> Some (ceilDays (expDate - now)))"

text \<open>
  The \<open>forEach\<close> callback updates the counts and appends to the alerts: first its platform
  detection, then its expiration analysis.
\<close>

definition platformDetection :: "vip \<Rightarrow> analysis \<Rightarrow> analysis" where
  "platformDetection v a =
     (let p = platforms a
      in a\<lparr>platforms :=
            (if startsWith (player_id v) ''76561198'' then p\<lparr>pc := pc p + 1\<rparr>
             else if startsWith (player_id v) ''11000''
                     \<or> startsWith (player_id v) ''76561199'' then p\<lparr>console := console p + 1\<rparr>
             else p\<lparr>unknown := unknown p + 1\<rparr>)\<rparr>)"

definition expirationAnalysis ::
  "env \<Rightarrow> int \<Rightarrow> vip \<Rightarrow> analysis \<times> string list \<Rightarrow> analysis \<times> string list" where
  "expirationAnalysis e now v acc =
     (let a = fst acc; alerts = snd acc
      in if \<not> truthy (expiration v) \<or> expiration v = Some ''None'' then
           (a\<lparr>permanent := permanent a + 1\<rparr>, alerts)
         else
           let a1 = a\<lparr>temporary := temporary a + 1\<rparr>
           in (case daysUntilExpiry e now (orElse (expiration v) []) of
                 None \<Rightarrow> (a1, alerts)
               | Some days \<Rightarrow>
                   if days < 0 then
                     (a1\<lparr>expired := expired a1 + 1\<rparr>,
                      alerts @ [glyph_cross @ '' **'' @ name v @ ''** expired ''
                                  @ show_int \<bar>days\<bar> @ '' days ago''])
                   else if days = 0 then
                     (a1\<lparr>expiringToday := expiringToday a1 + 1\<rparr>,
                      alerts @ [glyph_siren @ '' **'' @ name v @ ''** expires TODAY''])
                   else if days \<le> 7 then
                     (a1\<lparr>expiringSoon := expiringSoon a1 + 1\<rparr>,
                      alerts @ [glyph_warning @ '' **'' @ name v @ ''** expires in ''
                                  @ show_int days @ '' days''])
                   else (a1, alerts)))"

definition analyzeVip :: "env \<Rightarrow> int \<Rightarrow> analysis \<times> string list \<Rightarrow> vip \<Rightarrow> analysis \<times> string list" where
  "analyzeVip e now acc v = expirationAnalysis e now v (platformDetection v (fst acc), snd acc)"

definition emptyAnalysis :: "nat \<Rightarrow> analysis" where
  "emptyAnalysis n =
     \<lparr>total = n, permanent = 0, temporary = 0, expired = 0, expiringSoon = 0, expiringToday = 0,
      platforms = \<lparr>pc = 0, console = 0, unknown = 0\<rparr>\<rparr>"

definition analyzeList :: "env \<Rightarrow> int \<Rightarrow> vip list \<Rightarrow> analysis \<times> string list" where
  "analyzeList e now vipList = foldl (analyzeVip e now) (emptyAnalysis (length vipList), []) vipList"

text \<open>The report printed with \<open>console.log\<close>.\<close>

definition printReport :: "analysis \<Rightarrow> world \<Rightarrow> world" where
  "printReport a w =
     (let w1 = print (newline @ glyph_chart @ '' VIP Analysis Report'') w;
          w2 = print ''========================'' w1;
          w3 = print (glyph_people @ '' Total VIPs: '' @ show_nat (total a)) w2;
          w4 = print (glyph_lock @ '' Permanent: '' @ show_nat (permanent a)) w3;
          w5 = print (glyph_stopwatch @ '' Temporary: '' @ show_nat (temporary a)) w4;
          w6 = print (glyph_cross @ '' Expired: '' @ show_nat (expired a)) w5;
          w7 = print (glyph_warning @ '' Expiring Soon ('' @ glyph_le @ ''7 days): ''
                      @ show_nat (expiringSoon a)) w6;
          w8 = print (glyph_siren @ '' Expiring Today: '' @ show_nat (expiringToday a)) w7;
          w9 = print (glyph_computer @ '' PC Players: '' @ show_nat (pc (platforms a))) w8;
          w10 = print (glyph_gamepad @ '' Console Players: '' @ show_nat (console (platforms a))) w9
      in if unknown (platforms a) > 0 then
           print (glyph_question @ '' Unknown Platform: '' @ show_nat (unknown (platforms a))) w10
         else w10)"

definition reportContent :: "string \<Rightarrow> analysis \<Rightarrow> string list \<Rightarrow> string" where
  "reportContent stamp a alerts =
     (let content = ''VIP Analysis Report - '' @ stamp @ newline
            @ ''Total VIPs: '' @ show_nat (total a) @ newline
            @ ''Permanent: '' @ show_nat (permanent a) @ newline
            @ ''Temporary: '' @ show_nat (temporary a) @ newline
            @ ''Expired: '' @ show_nat (expired a) @ newline
            @ ''Expiring Soon: '' @ show_nat (expiringSoon a) @ newline
            @ ''Expiring Today: '' @ show_nat (expiringToday a) @ newline @ newline
      in if length alerts > 0 then
           foldl (\<lambda>content alert. content @ alert @ newline) (content @ ''ALERTS:'' @ newline) alerts
         else content)"

definition statusAlert :: "analysis \<Rightarrow> string" where
  "statusAlert a =
     glyph_chart @ '' **VIP Status Alert**'' @ newline
     @ (if expiringToday a > 0 then
          glyph_siren @ '' '' @ show_nat (expiringToday a) @ '' expire TODAY'' @ newline else [])
     @ (if expiringSoon a > 0 then
          glyph_warning @ '' '' @ show_nat (expiringSoon a) @ '' expire within 7 days'' @ newline
        else [])
     @ (if expired a > 0 then
          glyph_cross @ '' '' @ show_nat (expired a) @ '' already expired'' @ newline else [])"

text \<open>The \<open>catch\<close> of \<open>analyzeVips\<close>: log and throw the error again.\<close>

definition analysisFailed :: "string \<Rightarrow> world \<Rightarrow> (string + analysis) \<times> world" where
  "analysisFailed message w = (Inl message, log LError (''Analysis failed: '' @ message) w)"

text \<open>What follows the loop: print, write the report, notify.\<close>

definition reportAnalysis ::
  "env \<Rightarrow> analysis \<Rightarrow> string list \<Rightarrow> world \<Rightarrow> (string + analysis) \<times> world" where
  "reportAnalysis e a alerts w =
     (let w1 = printReport a w;
          (timestamp, w2) = fileTimestamp e w1;
          fname = ''vip_analysis_'' @ timestamp @ ''.txt'';
          (now, w3) = newDate e w2;
          content = reportContent (toISOString e now) a alerts;
          (made, w4) = mkdir e w3
      in (case made of
            Some message \<Rightarrow> analysisFailed message w4
          | None \<Rightarrow>
              let (written, w5) = writeFile e fname content w4
              in (case written of
                    Some message \<Rightarrow> analysisFailed message w5
                  | None \<Rightarrow>
                      if expired a > 0 \<or> expiringToday a > 0 \<or> expiringSoon a > 0 then
                        (Inr a, sendDiscordNotification e ''VIP Status Alert'' (statusAlert a)
                                  0xFF8C00 w5)
                      else (Inr a, w5))))"

definition analyzeVips :: "env \<Rightarrow> world \<Rightarrow> (string + analysis) \<times> world" where
  "analyzeVips e w =
     (let w1 = log LInfo ''Analyzing VIP data...'' w;
          (r, w2) = makeRequest e ''/api/get_vip_ids'' (getVipIds e) w1
      in (case r of
            Inl message \<Rightarrow> analysisFailed message w2
          | Inr None \<Rightarrow> analysisFailed ''No VIP data available'' w2
          | Inr (Some vipList) \<Rightarrow>
              let (now, w3) = newDate e w2;
                  (a, alerts) = analyzeList e now vipList
              in reportAnalysis e a alerts w3))"

section \<open>VIPService\<close>

definition serviceLog :: "level \<Rightarrow> string \<Rightarrow> world \<Rightarrow> world" where
  "serviceLog l message w = w\<lparr>stdout := stdout w @ [ServiceLog l message]\<rparr>"








subsection \<open>The scheduler\<close>

text \<open>
  The state of the service: its flag, the tasks registered with the scheduling library (each
  with its job and whether it is started), the pending timer of the first health check and
  the shutdown handlers registered with the process.
\<close>

datatype job = BackupJob | HealthJob

record service =
  isRunning :: bool
  tasks :: "(job \<times> bool) list"
  pendingChecks :: nat
  signalHandlers :: nat

text \<open>
  \<open>start()\<close>; the first component is the message of the error thrown, if any. The
  notification is not awaited; its request is made within the call.
\<close>

definition start :: "env \<Rightarrow> service \<times> world \<Rightarrow> string option \<times> service \<times> world" where
  "start e sw =
     (let s = fst sw; w = snd sw
      in if isRunning s then (None, s, serviceLog LWarning ''Service is already running'' w)
         else
           let w1 = serviceLog LInfo ''Starting VIP Service...'' w;
               w2 = serviceLog LInfo (''Backup schedule: '' @ backupSchedule e) w1;
               w3 = serviceLog LInfo (''Alert schedule: '' @ alertSchedule e) w2;
               w4 = serviceLog LInfo (''Retention period: '' @ show_int (retentionDays e) @ '' days'') w3
           in if \<not> cronValidate e (backupSchedule e) then
                (Some (''Invalid backup schedule: '' @ backupSchedule e), s, w4)
              else if \<not> cronValidate e (alertSchedule e) then
                (Some (''Invalid alert schedule: '' @ alertSchedule e), s, w4)
              else
                let s1 = s\<lparr>tasks := tasks s @ [(BackupJob, False)]\<rparr>;
                    s2 = s1\<lparr>tasks := tasks s1 @ [(HealthJob, False)]\<rparr>;
                    s3 = s2\<lparr>tasks := (tasks s2)[length (tasks s) := (BackupJob, True)]\<rparr>;
                    s4 = s3\<lparr>tasks := (tasks s3)[Suc (length (tasks s)) := (HealthJob, True)]\<rparr>;
                    s5 = s4\<lparr>isRunning := True\<rparr>;
                    w5 = serviceLog LSuccess ''VIP Service started successfully'' w4;
                    w6 = sendDiscordNotification e ''VIP Service Started''
                           (glyph_rocket @ '' **VIP Service Online**'' @ newline
                            @ glyph_calendar @ '' Backup: '' @ backupSchedule e @ newline
                            @ glyph_bell @ '' Health checks: '' @ alertSchedule e) 0x00FF00 w5;
                    s6 = s5\<lparr>pendingChecks := pendingChecks s5 + 1\<rparr>;
                    s7 = s6\<lparr>signalHandlers := signalHandlers s6 + 1\<rparr>
                in (None, s7, w6))"

definition stop :: "service \<times> world \<Rightarrow> service \<times> world" where
  "stop sw =
     (let s = fst sw; w = snd sw
      in if \<not> isRunning s then (s, serviceLog LWarning ''Service is not running'' w)
         else
           let w1 = serviceLog LInfo ''Stopping VIP Service...'' w;
               s1 = s\<lparr>tasks := map (\<lambda>task. (fst task, False)) (tasks s)\<rparr>;
               s2 = s1\<lparr>isRunning := False\<rparr>
           in (s2, serviceLog LSuccess ''VIP Service stopped'' w1))"

text \<open>The jobs that run when the time of every schedule comes: one run per started task.\<close>

definition firing :: "service \<Rightarrow> job list" where
  "firing s = map fst (filter snd (tasks s))"

section \<open>Notions used to state the properties\<close>

text \<open>
  A listed entry is swept when, at the tick \<open>t\<close> of the sweep, it can be examined, is older
  than the cutoff date and can be removed. \<open>listed\<close> is what the sweep sees of a directory and
  \<open>remaining\<close> is the directory without its swept entries.
\<close>

definition oldAccessible :: "env \<Rightarrow> nat \<Rightarrow> int option \<Rightarrow> string \<times> entry \<Rightarrow> bool" where
  "oldAccessible e t cutoffDate p =
     (\<not> statFails e t (fst p) \<and> dateBefore (mtime (snd p)) cutoffDate
      \<and> \<not> unlinkFails e t (fst p))"

fun listed :: "directory \<Rightarrow> (string \<times> entry) list" where
  "listed Missing = []"
| "listed (Present readable es) = (if readable then es else [])"

definition deletedBy ::
  "env \<Rightarrow> nat \<Rightarrow> int option \<Rightarrow> (string \<times> entry) list \<Rightarrow> string \<Rightarrow> bool" where
  "deletedBy e t c es f =
     (case map_of es f of None \<Rightarrow> False | Some x \<Rightarrow> oldAccessible e t c (f, x))"

definition remaining :: "env \<Rightarrow> nat \<Rightarrow> int option \<Rightarrow> directory \<Rightarrow> directory" where
  "remaining e t c d =
     (case d of
        Missing \<Rightarrow> Missing
      | Present readable es \<Rightarrow>
          Present readable (if readable then filter (\<lambda>p. \<not> oldAccessible e t c p) es else es))"

text \<open>
  The VIP list that the request made in world \<open>w\<close> yields, if it yields one; the milliseconds
  from \<open>now\<close> to the expiration of a record that has a readable one; and the records whose
  milliseconds to expiration satisfy \<open>P\<close>.
\<close>

definition fetchedVips :: "env \<Rightarrow> world \<Rightarrow> vip list option" where
  "fetchedVips e w =
     (if \<not> truthy (apiToken e) then None
      else (case getVipIds e (tick w) of
              Enveloped result failed err \<Rightarrow> if failed then None else result
            | Bare payload \<Rightarrow> payload
            | Rejected status dataError message \<Rightarrow> None))"

definition msUntilExpiry :: "env \<Rightarrow> int \<Rightarrow> vip \<Rightarrow> int option" where
  "msUntilExpiry e now v =
     (if permanentVip v then None
      else (case parseDate e (orElse (expiration v) []) of
              None \<Rightarrow> None
            | Some expDate \<Rightarrow> Some (expDate - now)))"

definition expiresWithin :: "env \<Rightarrow> int \<Rightarrow> (int \<Rightarrow> bool) \<Rightarrow> vip \<Rightarrow> bool" where
  "expiresWithin e now P v = (case msUntilExpiry e now v of None \<Rightarrow> False | Some ms \<Rightarrow> P ms)"


text \<open>
  Reading the generated text back. The repository has no reader of this text; the round trip
  is stated for the following one: the text is split at line breaks, the four header lines
  and the empty end are dropped, the player identifier of a line is its text before the first
  blank, and a line is permanent when, after the identifier and its separator, the text from
  the first opening parenthesis on starts with \<open>(permanent)\<close>. \<open>recordLine\<close> is the line
  generated for a record, without its line break. A record is \<open>parseable\<close> when its
  identifier has no blank, its name no opening parenthesis, and none of its texts a line break.
\<close>

fun splitLines :: "string \<Rightarrow> string list" where
  "splitLines [] = [[]]"
| "splitLines (c # cs) =
     (if c = CHR 0x0A then [] # splitLines cs
      else (case splitLines cs of [] \<Rightarrow> [[c]] | l # ls \<Rightarrow> (c # l) # ls))"

definition recordLines :: "string \<Rightarrow> string list" where
  "recordLines t = butlast (drop 4 (splitLines t))"

definition parsePlayerId :: "string \<Rightarrow> string" where
  "parsePlayerId l = takeWhile (\<lambda>c. c \<noteq> CHR '' '') l"

definition parsePermanent :: "string \<Rightarrow> bool" where
  "parsePermanent l =
     prefix ''(permanent)''
       (dropWhile (\<lambda>c. c \<noteq> CHR ''('') (drop 3 (dropWhile (\<lambda>c. c \<noteq> CHR '' '') l)))"

definition parseable :: "vip \<Rightarrow> bool" where
  "parseable v =
     (CHR '' '' \<notin> set (player_id v) \<and> CHR 0x0A \<notin> set (player_id v)
      \<and> CHR ''('' \<notin> set (name v) \<and> CHR 0x0A \<notin> set (name v)
      \<and> CHR 0x0A \<notin> set (orElse (expiration v) [])
      \<and> CHR 0x0A \<notin> set (orElse (description v) []))"

definition recordLine :: "vip \<Rightarrow> string" where
  "recordLine v = butlast (formatVip v)"

text \<open>
  What \<open>analyzeVips\<close> leaves on the console and in its report file, written out: the lines of
  the printed report, the text of the report file, and the line that
  \<open>sendDiscordNotification\<close> logs for a notification sent at tick \<open>t\<close>.
\<close>

definition reportLines :: "analysis \<Rightarrow> line list" where
  "reportLines a =
     [Print (newline @ glyph_chart @ '' VIP Analysis Report''),
      Print ''========================'',
      Print (glyph_people @ '' Total VIPs: '' @ show_nat (total a)),
      Print (glyph_lock @ '' Permanent: '' @ show_nat (permanent a)),
      Print (glyph_stopwatch @ '' Temporary: '' @ show_nat (temporary a)),
      Print (glyph_cross @ '' Expired: '' @ show_nat (expired a)),
      Print (glyph_warning @ '' Expiring Soon ('' @ glyph_le @ ''7 days): ''
               @ show_nat (expiringSoon a)),
      Print (glyph_siren @ '' Expiring Today: '' @ show_nat (expiringToday a)),
      Print (glyph_computer @ '' PC Players: '' @ show_nat (pc (platforms a))),
      Print (glyph_gamepad @ '' Console Players: '' @ show_nat (console (platforms a)))]
     @ (if unknown (platforms a) > 0 then
          [Print (glyph_question @ '' Unknown Platform: '' @ show_nat (unknown (platforms a)))]
        else [])"

definition reportText :: "string \<Rightarrow> analysis \<Rightarrow> string list \<Rightarrow> string" where
  "reportText stamp a alerts =
     ''VIP Analysis Report - '' @ stamp @ newline
     @ ''Total VIPs: '' @ show_nat (total a) @ newline
     @ ''Permanent: '' @ show_nat (permanent a) @ newline
     @ ''Temporary: '' @ show_nat (temporary a) @ newline
     @ ''Expired: '' @ show_nat (expired a) @ newline
     @ ''Expiring Soon: '' @ show_nat (expiringSoon a) @ newline
     @ ''Expiring Today: '' @ show_nat (expiringToday a) @ newline @ newline
     @ (if alerts = [] then []
        else ''ALERTS:'' @ newline @ concat (map (\<lambda>alert. alert @ newline) alerts))"

definition notificationLog :: "env \<Rightarrow> nat \<Rightarrow> line" where
  "notificationLog e t =
     (if \<not> truthy (webhookUrl e) then
        Log LInfo ''No Discord webhook configured, skipping notification''
      else (case webhookError e t of
              None \<Rightarrow> Log LSuccess ''Discord notification sent successfully''
            | Some message \<Rightarrow> Log LWarning (''Failed to send Discord notification: '' @ message)))"

subsection \<open>Concrete environments and worlds\<close>

text \<open>
  \<open>env0\<close> runs in UTC at 2025-06-15T15:06:40.000Z with a configured token and webhook.
\<close>

definition env0 :: env where
  "env0 = \<lparr> apiToken = Some ''secret-token'',
            webhookUrl = Some ''https://discord.example/api/webhooks/1'',
            backupSchedule = ''0 2 * * *'',
            alertSchedule = ''0 9 * * *'',
            retentionDays = 30,
            cronValidate = (\<lambda>s. s = ''0 2 * * *'' \<or> s = ''0 9 * * *''),
            clock = (\<lambda>n. 1750000000000),
            toISOString = (\<lambda>t. ''2025-06-15T15:06:40.000Z''),
            parseDate = (\<lambda>s. None),
            tzaUtc = (\<lambda>t. 0),
            tzaLocal = (\<lambda>t. 0),
            getStatus = (\<lambda>n. Bare None),
            downloadVips = (\<lambda>n. Bare None),
            getVipIds = (\<lambda>n. Bare None),
            webhookError = (\<lambda>n. None),
            mkdirError = (\<lambda>n. None),
            writeError = (\<lambda>n. None),
            statFails = (\<lambda>n f. False),
            unlinkFails = (\<lambda>n f. False) \<rparr>"

definition plainFile :: "int \<Rightarrow> entry" where
  "plainFile t = \<lparr> mtime = t, content = [] \<rparr>"

definition world0 :: world where
  "world0 = \<lparr> tick = 0, dir = Missing, stdout = [], requests = [], webhook = [] \<rparr>"

definition sweepWorld :: world where
  "sweepWorld = world0\<lparr> dir := Present True
       [(''aged-40-days.txt'', plainFile (1750000000000 - 40 * 86400000)),
        (''aged-31-days.txt'', plainFile (1750000000000 - 31 * 86400000)),
        (''aged-29-days.txt'', plainFile (1750000000000 - 29 * 86400000)),
        (''aged-1-day.txt'', plainFile (1750000000000 - 1 * 86400000))] \<rparr>"






text \<open>
  \<open>newYorkEnv\<close> runs at 2025-03-25T12:00:00.000Z in the zone of New York, whose offset changed
  from -5 h to -4 h on 9 March 2025; \<open>dstWorld\<close> has one entry aged 29 days, 23 hours and
  30 minutes.
\<close>

definition newYorkEnv :: env where
  "newYorkEnv = env0\<lparr> clock := (\<lambda>n. 1742904000000),
       toISOString := (\<lambda>t. ''2025-03-25T12:00:00.000Z''),
       tzaUtc := (\<lambda>t. if 1741503600000 \<le> t then - 14400000 else - 18000000),
       tzaLocal := (\<lambda>t. if 1741489200000 \<le> t then - 14400000 else - 18000000) \<rparr>"

definition dstWorld :: world where
  "dstWorld = world0\<lparr> dir := Present True
       [(''aged-29-days-23-hours-30-minutes.txt'', plainFile 1740313800000)] \<rparr>"

text \<open>
  \<open>demoEnv\<close> serves seven records: two permanent ones and five that expire at the clock
  reading, one millisecond before it, 7 days after it, 8 days after it and one day before it.
\<close>

definition demoVips :: "vip list" where
  "demoVips =
     [\<lparr>player_id = ''76561198000000001'', name = ''Alpha'', expiration = None,
       description = None\<rparr>,
      \<lparr>player_id = ''1100000100000001'', name = ''Bravo'',
       expiration = Some ''2025-06-15T15:06:40.000Z'', description = None\<rparr>,
      \<lparr>player_id = ''990000000'', name = ''Charlie'',
       expiration = Some ''2025-06-15T15:06:39.999Z'', description = Some ''donor''\<rparr>,
      \<lparr>player_id = ''76561199000000002'', name = ''Delta'',
       expiration = Some ''2025-06-22T15:06:40.000Z'', description = None\<rparr>,
      \<lparr>player_id = ''76561198000000003'', name = ''Echo'',
       expiration = Some ''2025-06-23T15:06:40.000Z'', description = None\<rparr>,
      \<lparr>player_id = ''76561198000000004'', name = ''Foxtrot'',
       expiration = Some ''2025-06-14T15:06:40.000Z'', description = None\<rparr>,
      \<lparr>player_id = ''76561198000000005'', name = ''Golf'', expiration = Some ''None'',
       description = None\<rparr>]"

definition demoParse :: "string \<Rightarrow> int option" where
  "demoParse s =
     (if s = ''2025-06-15T15:06:40.000Z'' then Some 1750000000000
      else if s = ''2025-06-15T15:06:39.999Z'' then Some 1749999999999
      else if s = ''2025-06-22T15:06:40.000Z'' then Some 1750604800000
      else if s = ''2025-06-23T15:06:40.000Z'' then Some 1750691200000
      else if s = ''2025-06-14T15:06:40.000Z'' then Some 1749913600000
      else None)"

definition demoEnv :: env where
  "demoEnv = env0\<lparr> parseDate := demoParse,
                    getVipIds := (\<lambda>n. Enveloped (Some demoVips) False None) \<rparr>"

definition platformEnv :: env where
  "platformEnv = env0\<lparr> getVipIds := (\<lambda>n. Enveloped (Some (take 3 demoVips)) False None) \<rparr>"

definition lateEnv :: env where
  "lateEnv = env0\<lparr> parseDate := demoParse,
                    getVipIds := (\<lambda>n. Enveloped (Some [demoVips ! 2]) False None) \<rparr>"

definition lateAnalysis :: analysis where
  "lateAnalysis =
     \<lparr>total = 1, permanent = 0, temporary = 1, expired = 0, expiringSoon = 0, expiringToday = 1,
      platforms = \<lparr>pc = 0, console = 0, unknown = 1\<rparr>\<rparr>"





text \<open>
  Two records, one permanent and one not, for which \<open>formatVip\<close> generates the same line.
\<close>

definition ambiguousPermanent :: vip where
  "ambiguousPermanent =
     \<lparr>player_id = ''76561198000000001'', name = ''Alpha'', expiration = None,
      description = Some ''donor (expires: 2025-12-31T00:00:00)''\<rparr>"

definition ambiguousTemporary :: vip where
  "ambiguousTemporary =
     \<lparr>player_id = ''76561198000000001'', name = ''Alpha (permanent) - donor'',
      expiration = Some ''2025-12-31T00:00:00'', description = None\<rparr>"

text \<open>The service as constructed, and as it is after its first start.\<close>

definition service0 :: service where
  "service0 = \<lparr>isRunning = False, tasks = [], pendingChecks = 0, signalHandlers = 0\<rparr>"

definition runningService :: service where
  "runningService =
     \<lparr>isRunning = True, tasks = [(BackupJob, True), (HealthJob, True)], pendingChecks = 1,
      signalHandlers = 1\<rparr>"


section \<open>The retention sweep\<close>

lemma delete_filter: "AList.delete f es = filter (\<lambda>p. fst p \<noteq> f) es"
  by (induction es) (auto simp: AList.delete_eq)

lemma cleanupLoop_step_keep:
  "dir w = Present r es \<Longrightarrow> tick w = t \<Longrightarrow> \<not> deletedBy e t c es f \<Longrightarrow>
   (case stat e w f of
      None \<Rightarrow> (n, w)
    | Some stats \<Rightarrow>
        if dateBefore (mtime stats) c then
          (case unlink e w f of
             None \<Rightarrow> (n, w)
           | Some d \<Rightarrow> (n + 1, log LInfo (''Deleted old backup: '' @ f) (w\<lparr>dir := d\<rparr>)))
        else (n, w)) = (n, w)"
  by (auto simp: stat_def unlink_def deletedBy_def oldAccessible_def split: option.splits)

lemma cleanupLoop_step_delete:
  "dir w = Present r es \<Longrightarrow> tick w = t \<Longrightarrow> deletedBy e t c es f \<Longrightarrow>
   (case stat e w f of
      None \<Rightarrow> (n, w)
    | Some stats \<Rightarrow>
        if dateBefore (mtime stats) c then
          (case unlink e w f of
             None \<Rightarrow> (n, w)
           | Some d \<Rightarrow> (n + 1, log LInfo (''Deleted old backup: '' @ f) (w\<lparr>dir := d\<rparr>)))
        else (n, w))
   = (n + 1, log LInfo (''Deleted old backup: '' @ f) (w\<lparr>dir := Present r (AList.delete f es)\<rparr>))"
  by (auto simp: stat_def unlink_def deletedBy_def oldAccessible_def split: option.splits)

lemma cleanupLoop_present:
  "dir w = Present r es \<Longrightarrow> tick w = t \<Longrightarrow> distinct ns \<Longrightarrow>
   fst (cleanupLoop e c ns (n, w)) = n + length (filter (deletedBy e t c es) ns) \<and>
   dir (snd (cleanupLoop e c ns (n, w))) =
     Present r (filter (\<lambda>p. \<not> (fst p \<in> set ns \<and> deletedBy e t c es (fst p))) es)"
proof (induction ns arbitrary: n w es)
  case Nil
  then show ?case by simp
next
  case (Cons f fs)
  have d: "distinct fs" and nf: "f \<notin> set fs" using Cons.prems(3) by simp_all
  show ?case
  proof (cases "deletedBy e t c es f")
    case False
    have unfold: "cleanupLoop e c (f # fs) (n, w) = cleanupLoop e c fs (n, w)"
      using cleanupLoop_step_keep[OF Cons.prems(1,2) False, of n]
      by (simp only: cleanupLoop.simps)
    from Cons.IH[OF Cons.prems(1,2) d, of n] False show ?thesis
      unfolding unfold by (auto intro: filter_cong)
  next
    case True
    let ?es' = "AList.delete f es"
    let ?w' = "log LInfo (''Deleted old backup: '' @ f) (w\<lparr>dir := Present r ?es'\<rparr>)"
    have unfold: "cleanupLoop e c (f # fs) (n, w) = cleanupLoop e c fs (n + 1, ?w')"
      using cleanupLoop_step_delete[OF Cons.prems(1,2) True, of n]
      by (simp only: cleanupLoop.simps)
    have dw: "dir ?w' = Present r ?es'" by (simp add: log_def)
    have tw: "tick ?w' = t" using Cons.prems(2) by (simp add: log_def)
    have same: "\<And>g. g \<noteq> f \<Longrightarrow> deletedBy e t c ?es' g = deletedBy e t c es g"
      by (simp add: deletedBy_def delete_conv')
    have cnt: "filter (deletedBy e t c ?es') fs = filter (deletedBy e t c es) fs"
    proof (rule filter_cong[OF refl])
      fix g assume "g \<in> set fs"
      with nf have "g \<noteq> f" by auto
      then show "deletedBy e t c ?es' g = deletedBy e t c es g" by (rule same)
    qed
    have rest: "filter (\<lambda>p. \<not> (fst p \<in> set fs \<and> deletedBy e t c ?es' (fst p))) ?es'
        = filter (\<lambda>p. \<not> (fst p \<in> set (f # fs) \<and> deletedBy e t c es (fst p))) es"
    proof -
      define A where
        "A = (\<lambda>p :: string \<times> entry. \<not> (fst p \<in> set fs \<and> deletedBy e t c ?es' (fst p)))"
      have "filter A ?es' = filter A (filter (\<lambda>p. fst p \<noteq> f) es)"
        by (rule arg_cong[OF delete_filter])
      also have "\<dots> = filter (\<lambda>p. fst p \<noteq> f \<and> A p) es"
        by (rule filter_filter)
      also have "\<dots> = filter (\<lambda>p. \<not> (fst p \<in> set (f # fs) \<and> deletedBy e t c es (fst p))) es"
      proof (rule filter_cong[OF refl])
        fix p assume "p \<in> set es"
        show "(fst p \<noteq> f \<and> A p) = (\<not> (fst p \<in> set (f # fs) \<and> deletedBy e t c es (fst p)))"
          unfolding A_def using True same[of "fst p"] by (cases "fst p = f") auto
      qed
      finally show ?thesis unfolding A_def .
    qed
    have len: "length (filter (deletedBy e t c es) (f # fs))
                 = 1 + length (filter (deletedBy e t c es) fs)"
      using True by simp
    note ih = Cons.IH[OF dw tw d, of "n + 1", unfolded cnt rest]
    show ?thesis
      unfolding unfold len using ih by simp
  qed
qed

lemma cleanupLoop_tick: "tick (snd (cleanupLoop e c ns (n, w))) = tick w"
  by (induction ns arbitrary: n w) (auto simp: log_def split: option.splits)

lemma count_by_name:
  assumes "distinct (map fst es)"
  shows "filter (deletedBy e t c es) (map fst es) = map fst (filter (oldAccessible e t c) es)"
    and "filter (\<lambda>p. \<not> (fst p \<in> set (map fst es) \<and> deletedBy e t c es (fst p))) es
         = filter (\<lambda>p. \<not> oldAccessible e t c p) es"
proof -
  have eq: "\<And>p. p \<in> set es \<Longrightarrow> deletedBy e t c es (fst p) = oldAccessible e t c p"
    using assms by (auto simp: deletedBy_def)
  show "filter (deletedBy e t c es) (map fst es) = map fst (filter (oldAccessible e t c) es)"
    unfolding filter_map using eq by (auto intro!: arg_cong[where f = "map fst"] filter_cong)
  show "filter (\<lambda>p. \<not> (fst p \<in> set (map fst es) \<and> deletedBy e t c es (fst p))) es
         = filter (\<lambda>p. \<not> oldAccessible e t c p) es"
    using eq by (intro filter_cong[OF refl]) auto
qed

lemma cleanup_result:
  assumes "distinct (map fst (listed (dir w)))"
  shows "fst (cleanupOldBackups e k w)
           = length (filter (oldAccessible e (Suc (tick w)) (setDateBack e (clock e (tick w)) k))
                       (listed (dir w)))"
    and "dir (snd (cleanupOldBackups e k w))
           = remaining e (Suc (tick w)) (setDateBack e (clock e (tick w)) k) (dir w)"
    and "tick (snd (cleanupOldBackups e k w)) = Suc (tick w)"
proof -
  let ?c = "setDateBack e (clock e (tick w)) k"
  let ?t = "Suc (tick w)"
  let ?w2 = "(log LInfo (''Cleaning up backups older than '' @ show_int k @ '' days...'') w)\<lparr>tick := Suc (tick w)\<rparr>"
  let ?r = "cleanupLoop e ?c (readdir (dir w)) (0, ?w2)"
  have unfold: "cleanupOldBackups e k w =
      (fst ?r, log LSuccess (''Cleanup complete: '' @ show_nat (fst ?r) @ '' files removed'') (snd ?r))"
    by (simp add: cleanupOldBackups_def Let_def newDate_def log_def split_beta)
  have dw2: "dir ?w2 = dir w" and tw2: "tick ?w2 = ?t" by (simp_all add: log_def)
  have "fst ?r = length (filter (oldAccessible e ?t ?c) (listed (dir w)))
      \<and> dir (snd ?r) = remaining e ?t ?c (dir w)"
  proof (cases "dir w")
    case Missing
    then show ?thesis by (simp add: remaining_def log_def)
  next
    case (Present r es)
    show ?thesis
    proof (cases r)
      case False
      with Present show ?thesis by (simp add: remaining_def log_def)
    next
      case True
      with Present assms have d: "distinct (map fst es)" by simp
      have dw: "dir ?w2 = Present r es" using Present dw2 by simp
      from cleanupLoop_present[OF dw tw2 d, of e ?c 0] count_by_name[OF d, of e ?t ?c]
      show ?thesis using Present True by (simp add: remaining_def)
    qed
  qed
  then show "fst (cleanupOldBackups e k w)
           = length (filter (oldAccessible e ?t ?c) (listed (dir w)))"
    and "dir (snd (cleanupOldBackups e k w)) = remaining e ?t ?c (dir w)"
    by (simp_all add: unfold log_def)
  show "tick (snd (cleanupOldBackups e k w)) = Suc (tick w)"
    by (simp add: unfold log_def cleanupLoop_tick)
qed

lemma setDateBack_fixed_offset:
  assumes "\<forall>t. tzaUtc e t = z" "\<forall>t. tzaLocal e t = z"
    and "\<bar>t - k * 86400000\<bar> \<le> 8640000000000000"
  shows "setDateBack e t k = Some (t - k * 86400000)"
  using assms by (simp add: setDateBack_def Let_def timeClip_def msPerDay_def)


lemma remaining_none:
  "filter (oldAccessible e t None) es = []" "remaining e t None d = d"
  by (auto simp: oldAccessible_def remaining_def split: directory.splits)


text \<open>
  C6. For every directory whose entries have distinct names, \<open>cleanupOldBackups\<close> removes
  exactly the entries that can be examined and removed and whose modification time is before
  the cutoff date, and returns how many it removed. The cutoff date is the current date with
  its local calendar day set back by \<open>keepDays\<close>: it is the current time minus \<open>keepDays\<close>
  times 86400000 ms where the local time zone offset is fixed and that time is in the range
  of dates; when the cutoff is no date, nothing is removed. A missing or unreadable directory is
  swept as an empty one, an entry whose \<open>stat\<close> or \<open>unlink\<close> fails stays, and the function
  always returns a count. The witness is the sweep of entries aged 40, 31, 29 and 1 days with
  30 days kept: the first two go and the count is 2. The counterexample has a sweep across a
  change of the zone offset that removes an entry younger than 30 times 24 hours, and a sweep
  with a cutoff out of range that removes nothing although every entry is older.
\<close>

theorem cleanupOldBackups_sweep:
  assumes "distinct (map fst (listed (dir w)))"
  shows "let cutoffDate = setDateBack e (clock e (tick w)) keepDays;
             (deletedCount, w') = cleanupOldBackups e keepDays w
         in deletedCount
              = length (filter (oldAccessible e (Suc (tick w)) cutoffDate) (listed (dir w)))
          \<and> dir w' = remaining e (Suc (tick w)) cutoffDate (dir w)
          \<and> (dir w = Missing \<or> (\<exists>es. dir w = Present False es) \<longrightarrow> deletedCount = 0 \<and> dir w' = dir w)
          \<and> (cutoffDate = None \<longrightarrow> deletedCount = 0 \<and> dir w' = dir w)
          \<and> ((\<forall>t. tzaUtc e t = z \<and> tzaLocal e t = z)
                \<and> \<bar>clock e (tick w) - keepDays * 86400000\<bar> \<le> 8640000000000000
              \<longrightarrow> cutoffDate = Some (clock e (tick w) - keepDays * 86400000))"
proof -
  let ?c = "setDateBack e (clock e (tick w)) keepDays"
  note r = cleanup_result[OF assms, of e keepDays]
  have empty: "dir w = Missing \<or> (\<exists>es. dir w = Present False es) \<Longrightarrow>
      listed (dir w) = [] \<and> remaining e (Suc (tick w)) ?c (dir w) = dir w"
    by (auto simp: remaining_def)
  have none: "?c = None \<Longrightarrow>
      filter (oldAccessible e (Suc (tick w)) ?c) (listed (dir w)) = []
      \<and> remaining e (Suc (tick w)) ?c (dir w) = dir w"
    by (simp add: remaining_none)
  have tz: "(\<forall>t. tzaUtc e t = z \<and> tzaLocal e t = z)
                \<and> \<bar>clock e (tick w) - keepDays * 86400000\<bar> \<le> 8640000000000000
              \<Longrightarrow> ?c = Some (clock e (tick w) - keepDays * 86400000)"
    by (rule setDateBack_fixed_offset[where z = z]) auto
  show ?thesis
    unfolding Let_def split_beta using r(1,2) empty none tz by auto
qed

theorem cleanupOldBackups_sweep_witness:
  "distinct (map fst (listed (dir sweepWorld)))
   \<and> fst (cleanupOldBackups env0 30 sweepWorld) = 2
   \<and> dir (snd (cleanupOldBackups env0 30 sweepWorld)) = Present True
       [(''aged-29-days.txt'', plainFile (1750000000000 - 29 * 86400000)),
        (''aged-1-day.txt'', plainFile (1750000000000 - 1 * 86400000))]
   \<and> setDateBack env0 (clock env0 (tick sweepWorld)) 30 = Some (1750000000000 - 30 * 86400000)"
proof -
  have d: "distinct (map fst (listed (dir sweepWorld)))"
    by (simp add: sweepWorld_def world0_def)
  show ?thesis
    using d cleanupOldBackups_sweep[OF d, of env0 30 0]
    by (simp add: Let_def split_beta sweepWorld_def world0_def env0_def plainFile_def
        oldAccessible_def remaining_def)
qed

theorem cleanupOldBackups_sweep_counterexample:
  "dir dstWorld = Present True [(''aged-29-days-23-hours-30-minutes.txt'', plainFile 1740313800000)]
   \<and> clock newYorkEnv (tick dstWorld) = 1742904000000
   \<and> \<not> (1740313800000 < (1742904000000 :: int) - 30 * 86400000)
   \<and> fst (cleanupOldBackups newYorkEnv 30 dstWorld) = 1
   \<and> dir (snd (cleanupOldBackups newYorkEnv 30 dstWorld)) = Present True []
   \<and> clock env0 (tick sweepWorld) = 1750000000000
   \<and> 1750000000000 - 1 * 86400000 < (1750000000000 :: int) - (- 99979746) * 86400000
   \<and> fst (cleanupOldBackups env0 (- 99979746) sweepWorld) = 0
   \<and> dir (snd (cleanupOldBackups env0 (- 99979746) sweepWorld)) = dir sweepWorld"
proof -
  have d: "distinct (map fst (listed (dir dstWorld)))"
    by (simp add: dstWorld_def world0_def)
  have c: "setDateBack newYorkEnv (clock newYorkEnv (tick dstWorld)) 30 = Some 1740315600000"
    by (simp add: setDateBack_def timeClip_def msPerDay_def Let_def newYorkEnv_def env0_def
          dstWorld_def world0_def)
  have n1: "fst (cleanupOldBackups newYorkEnv 30 dstWorld) = 1"
    by (subst cleanup_result(1)[OF d], subst c)
       (simp add: dstWorld_def world0_def newYorkEnv_def env0_def plainFile_def oldAccessible_def)
  have d1: "dir (snd (cleanupOldBackups newYorkEnv 30 dstWorld)) = Present True []"
    by (subst cleanup_result(2)[OF d], subst c)
       (simp add: dstWorld_def world0_def newYorkEnv_def env0_def plainFile_def oldAccessible_def
          remaining_def)
  have s: "distinct (map fst (listed (dir sweepWorld)))"
    by (simp add: sweepWorld_def world0_def)
  have c2: "setDateBack env0 (clock env0 (tick sweepWorld)) (- 99979746) = None"
    by (simp add: setDateBack_def timeClip_def msPerDay_def Let_def env0_def sweepWorld_def
          world0_def)
  have n2: "fst (cleanupOldBackups env0 (- 99979746) sweepWorld) = 0"
    by (subst cleanup_result(1)[OF s], subst c2) (simp add: remaining_none)
  have d2: "dir (snd (cleanupOldBackups env0 (- 99979746) sweepWorld)) = dir sweepWorld"
    by (subst cleanup_result(2)[OF s], subst c2) (simp add: remaining_none)
  have w: "dir dstWorld
             = Present True [(''aged-29-days-23-hours-30-minutes.txt'', plainFile 1740313800000)]"
    "clock newYorkEnv (tick dstWorld) = 1742904000000"
    "clock env0 (tick sweepWorld) = 1750000000000"
    by (simp_all add: dstWorld_def world0_def newYorkEnv_def env0_def)
  from w n1 d1 n2 d2 show ?thesis by simp
qed




section \<open>The outside interactions of the operations\<close>

text \<open>What each operation leaves of the world unchanged, and what it adds.\<close>

named_theorems frame

lemma log_frame [frame]:
  "tick (log l m w) = tick w" "dir (log l m w) = dir w"
  "requests (log l m w) = requests w" "webhook (log l m w) = webhook w"
  by (simp_all add: log_def)

lemma print_frame [frame]:
  "tick (print m w) = tick w" "dir (print m w) = dir w"
  "requests (print m w) = requests w" "webhook (print m w) = webhook w"
  by (simp_all add: print_def)

lemma serviceLog_frame [frame]:
  "tick (serviceLog l m w) = tick w" "dir (serviceLog l m w) = dir w"
  "requests (serviceLog l m w) = requests w" "webhook (serviceLog l m w) = webhook w"
  by (simp_all add: serviceLog_def)

lemma newDate_frame [frame]:
  "fst (newDate e w) = clock e (tick w)" "tick (snd (newDate e w)) = Suc (tick w)"
  "dir (snd (newDate e w)) = dir w" "requests (snd (newDate e w)) = requests w"
  "webhook (snd (newDate e w)) = webhook w"
  by (simp_all add: newDate_def)

lemma fileTimestamp_frame [frame]:
  "tick (snd (fileTimestamp e w)) = Suc (tick w)"
  "dir (snd (fileTimestamp e w)) = dir w" "requests (snd (fileTimestamp e w)) = requests w"
  "webhook (snd (fileTimestamp e w)) = webhook w"
  by (simp_all add: fileTimestamp_def split_beta frame)

lemma mkdir_frame [frame]:
  "fst (mkdir e w) = mkdirError e (tick w)" "tick (snd (mkdir e w)) = Suc (tick w)"
  "requests (snd (mkdir e w)) = requests w" "webhook (snd (mkdir e w)) = webhook w"
  by (simp_all add: mkdir_def Let_def split: option.splits)

lemma mkdir_dir:
  "mkdirError e (tick w) = None \<Longrightarrow> dir (snd (mkdir e w)) \<noteq> Missing"
  "mkdirError e (tick w) \<noteq> None \<Longrightarrow> dir (snd (mkdir e w)) = dir w"
  by (auto simp add: mkdir_def Let_def split: option.splits directory.splits)

lemma writeFile_frame [frame]:
  "tick (snd (writeFile e f d w)) = Suc (tick w)"
  "requests (snd (writeFile e f d w)) = requests w" "webhook (snd (writeFile e f d w)) = webhook w"
  by (simp_all add: writeFile_def Let_def split: option.splits directory.splits)

lemma writeFile_result:
  "dir w \<noteq> Missing \<Longrightarrow> fst (writeFile e f d w) = writeError e (tick w)"
  by (simp add: writeFile_def Let_def split: option.splits directory.splits)

lemma makeRequest_frame [frame]:
  "tick (snd (makeRequest e ep orc w)) = (if truthy (apiToken e) then Suc (tick w) else tick w)"
  "dir (snd (makeRequest e ep orc w)) = dir w"
  "requests (snd (makeRequest e ep orc w))
     = requests w @ (if truthy (apiToken e) then [ep] else [])"
  "webhook (snd (makeRequest e ep orc w)) = webhook w"
  by (simp_all add: makeRequest_def Let_def frame split: http_response.splits)

lemma makeRequest_vips:
  "(fst (makeRequest e ep (getVipIds e) w) = Inr (Some vs)) = (fetchedVips e w = Some vs)"
  by (auto simp add: makeRequest_def fetchedVips_def Let_def frame split: http_response.splits)

lemma sendDiscordNotification_frame [frame]:
  "tick (sendDiscordNotification e t d c w) = (if truthy (webhookUrl e) then Suc (tick w) else tick w)"
  "dir (sendDiscordNotification e t d c w) = dir w"
  "requests (sendDiscordNotification e t d c w) = requests w"
  "webhook (sendDiscordNotification e t d c w)
     = webhook w @ (if truthy (webhookUrl e) then [discordEmbed t d c] else [])"
  by (simp_all add: sendDiscordNotification_def Let_def frame split: option.splits)

lemma printReport_frame [frame]:
  "tick (printReport a w) = tick w" "dir (printReport a w) = dir w"
  "requests (printReport a w) = requests w" "webhook (printReport a w) = webhook w"
  by (simp_all add: printReport_def Let_def frame)

lemma reportAnalysis_result:
  "fst (reportAnalysis e a al w) =
     (case mkdirError e (Suc (Suc (tick w))) of
        Some m \<Rightarrow> Inl m
      | None \<Rightarrow> (case writeError e (Suc (Suc (Suc (tick w)))) of Some m \<Rightarrow> Inl m | None \<Rightarrow> Inr a))"
proof -
  let ?w3 = "snd (newDate e (snd (fileTimestamp e (printReport a w))))"
  have t: "tick ?w3 = Suc (Suc (tick w))" by (simp add: frame)
  show ?thesis
  proof (cases "mkdirError e (Suc (Suc (tick w)))")
    case (Some m)
    then show ?thesis
      by (simp add: reportAnalysis_def Let_def split_beta frame analysisFailed_def)
  next
    case None
    then have "dir (snd (mkdir e ?w3)) \<noteq> Missing"
      using mkdir_dir(1)[of e ?w3] t by simp
    then have wr: "fst (writeFile e f d (snd (mkdir e ?w3))) = writeError e (Suc (Suc (Suc (tick w))))"
      for f d
      by (simp add: writeFile_result frame)
    have mk: "fst (mkdir e ?w3) = None"
      using None by (simp add: frame)
    show ?thesis
      unfolding reportAnalysis_def Let_def split_beta mk wr
      by (simp add: None analysisFailed_def split: option.splits)
  qed
qed

lemma reportAnalysis_webhook:
  "webhook (snd (reportAnalysis e a al w)) =
     webhook w @
       (if fst (reportAnalysis e a al w) = Inr a \<and> truthy (webhookUrl e)
           \<and> (expired a > 0 \<or> expiringToday a > 0 \<or> expiringSoon a > 0)
        then [discordEmbed ''VIP Status Alert'' (statusAlert a) 0xFF8C00] else [])"
  by (simp add: reportAnalysis_def Let_def split_beta frame analysisFailed_def
        split: option.splits)


lemma makeRequest_tick_only:
  "tick w = tick w' \<Longrightarrow> fst (makeRequest e ep orc w) = fst (makeRequest e ep' orc w')"
  by (simp add: makeRequest_def Let_def frame split: http_response.splits)

lemma makeRequest_Inr_token:
  "fst (makeRequest e ep orc w) = Inr r \<Longrightarrow> truthy (apiToken e)"
  by (auto simp add: makeRequest_def split: if_splits)

lemma analyzeVips_unfold:
  "analyzeVips e w =
     (case fst (makeRequest e ''/api/get_vip_ids'' (getVipIds e) w) of
        Inl m \<Rightarrow> analysisFailed m
                   (snd (makeRequest e ''/api/get_vip_ids'' (getVipIds e)
                           (log LInfo ''Analyzing VIP data...'' w)))
      | Inr None \<Rightarrow> analysisFailed ''No VIP data available''
                   (snd (makeRequest e ''/api/get_vip_ids'' (getVipIds e)
                           (log LInfo ''Analyzing VIP data...'' w)))
      | Inr (Some vs) \<Rightarrow>
          reportAnalysis e (fst (analyzeList e (clock e (Suc (tick w))) vs))
            (snd (analyzeList e (clock e (Suc (tick w))) vs))
            (snd (newDate e (snd (makeRequest e ''/api/get_vip_ids'' (getVipIds e)
                                    (log LInfo ''Analyzing VIP data...'' w))))))"
proof -
  have same: "fst (makeRequest e ''/api/get_vip_ids'' (getVipIds e)
                     (log LInfo ''Analyzing VIP data...'' w))
              = fst (makeRequest e ''/api/get_vip_ids'' (getVipIds e) w)"
    by (rule makeRequest_tick_only) (simp add: frame)
  have tok: "fst (makeRequest e ''/api/get_vip_ids'' (getVipIds e) w) = Inr r \<Longrightarrow> truthy (apiToken e)"
    for r by (auto simp add: makeRequest_def split: if_splits)
  show ?thesis
    unfolding analyzeVips_def Let_def split_beta same
    by (auto simp add: frame dest: tok split: sum.splits option.splits)
qed

lemma analyzeVips_Inr:
  assumes "analyzeVips e w = (Inr a, w')"
  shows "\<exists>vs. fetchedVips e w = Some vs \<and> a = fst (analyzeList e (clock e (Suc (tick w))) vs)"
proof -
  from assms have r: "fst (analyzeVips e w) = Inr a" by simp
  show ?thesis
  proof (cases "fst (makeRequest e ''/api/get_vip_ids'' (getVipIds e) w)")
    case (Inl m)
    with r show ?thesis by (simp add: analyzeVips_unfold analysisFailed_def)
  next
    case (Inr p)
    show ?thesis
    proof (cases p)
      case None
      with Inr r show ?thesis by (simp add: analyzeVips_unfold analysisFailed_def)
    next
      case (Some vs)
      with Inr have f: "fetchedVips e w = Some vs"
        using makeRequest_vips[of e "''/api/get_vip_ids''" w vs] by simp
      from r Inr Some have "a = fst (analyzeList e (clock e (Suc (tick w))) vs)"
        by (simp add: analyzeVips_unfold reportAnalysis_result split: option.splits)
      with f show ?thesis by blast
    qed
  qed
qed

lemma analyzeVips_success:
  assumes "fetchedVips e w = Some vs"
    and "mkdirError e (Suc (Suc (Suc (Suc (tick w))))) = None"
    and "writeError e (Suc (Suc (Suc (Suc (Suc (tick w)))))) = None"
  shows "fst (analyzeVips e w) = Inr (fst (analyzeList e (clock e (Suc (tick w))) vs))"
proof -
  from assms(1) have m: "fst (makeRequest e ''/api/get_vip_ids'' (getVipIds e) w) = Inr (Some vs)"
    by (simp add: makeRequest_vips)
  from assms(1) have tok: "truthy (apiToken e)"
    by (auto simp: fetchedVips_def split: if_splits)
  show ?thesis
    by (simp add: analyzeVips_unfold m reportAnalysis_result frame tok assms(2,3))
qed

lemma analyzeVips_webhook:
  "webhook (snd (analyzeVips e w)) =
     webhook w @
       (case fst (analyzeVips e w) of
          Inl m \<Rightarrow> []
        | Inr a \<Rightarrow>
            if truthy (webhookUrl e) \<and> (expired a > 0 \<or> expiringToday a > 0 \<or> expiringSoon a > 0)
            then [discordEmbed ''VIP Status Alert'' (statusAlert a) 0xFF8C00] else [])"
proof (cases "fst (makeRequest e ''/api/get_vip_ids'' (getVipIds e) w)")
  case (Inl m)
  then show ?thesis by (simp add: analyzeVips_unfold analysisFailed_def frame)
next
  case (Inr p)
  show ?thesis
  proof (cases p)
    case None
    with Inr show ?thesis by (simp add: analyzeVips_unfold analysisFailed_def frame)
  next
    case (Some vs)
    with Inr have tok: "truthy (apiToken e)" by (auto dest: makeRequest_Inr_token)
    from Some Inr show ?thesis
      by (simp add: analyzeVips_unfold reportAnalysis_webhook reportAnalysis_result frame tok
            split: option.splits)
  qed
qed

lemma analyzeVips_requests:
  "requests (snd (analyzeVips e w))
     = requests w @ (if truthy (apiToken e) then [''/api/get_vip_ids''] else [])"
  by (simp add: analyzeVips_def Let_def split_beta frame analysisFailed_def reportAnalysis_def
        split: sum.splits option.splits)

section \<open>The analysis\<close>

lemma foldl_count:
  assumes "\<And>acc v. g (f acc v) = g acc + (if P v then 1 else (0::nat))"
  shows "g (foldl f acc vs) = g acc + length (filter P vs)"
  by (induction vs arbitrary: acc) (simp_all add: assms)

lemma foldl_keep:
  assumes "\<And>acc v. g (f acc v) = g acc"
  shows "g (foldl f acc vs) = g acc"
  by (induction vs arbitrary: acc) (simp_all add: assms)

lemma startsWith_prefix: "startsWith s p = prefix p s"
  by (induction s p rule: startsWith.induct) auto

lemma ceilDays_cases:
  "(ceilDays x < 0) = (x \<le> - 86400000)"
  "(ceilDays x = 0) = (- 86400000 < x \<and> x \<le> 0)"
  "(ceilDays x \<le> 7) = (x \<le> 7 * 86400000)"
proof -
  define q where "q = (- x) div 86400000"
  define r where "r = (- x) mod 86400000"
  have x: "- x = q * 86400000 + r" and r: "0 \<le> r" "r < 86400000"
    by (simp_all add: q_def r_def)
  have c: "ceilDays x = - q"
    by (simp add: ceilDays_def msPerDay_def q_def)
  show "(ceilDays x < 0) = (x \<le> - 86400000)"
    unfolding c using x r by linarith
  show "(ceilDays x = 0) = (- 86400000 < x \<and> x \<le> 0)"
    unfolding c using x r by linarith
  show "(ceilDays x \<le> 7) = (x \<le> 7 * 86400000)"
    unfolding c using x r by linarith
qed

lemma platformDetection_fields:
  "total (platformDetection v a) = total a"
  "permanent (platformDetection v a) = permanent a"
  "temporary (platformDetection v a) = temporary a"
  "expired (platformDetection v a) = expired a"
  "expiringToday (platformDetection v a) = expiringToday a"
  "expiringSoon (platformDetection v a) = expiringSoon a"
  by (simp_all add: platformDetection_def Let_def)

lemma expirationAnalysis_platforms:
  "platforms (fst (expirationAnalysis e now v acc)) = platforms (fst acc)"
  by (simp add: expirationAnalysis_def Let_def split: option.splits)

lemma expirationAnalysis_total:
  "total (fst (expirationAnalysis e now v acc)) = total (fst acc)"
  by (simp add: expirationAnalysis_def Let_def split: option.splits)

lemma expirationAnalysis_permanent:
  "permanent (fst (expirationAnalysis e now v acc))
     = permanent (fst acc) + (if permanentVip v then 1 else 0)"
  by (simp add: expirationAnalysis_def Let_def permanentVip_def split: option.splits)

lemma expirationAnalysis_temporary:
  "temporary (fst (expirationAnalysis e now v acc))
     = temporary (fst acc) + (if \<not> permanentVip v then 1 else 0)"
  by (simp add: expirationAnalysis_def Let_def permanentVip_def split: option.splits)

lemma expiresWithin_days:
  "expiresWithin e now P v =
     (\<not> permanentVip v \<and>
      (case parseDate e (orElse (expiration v) []) of None \<Rightarrow> False | Some t \<Rightarrow> P (t - now)))"
  by (simp add: expiresWithin_def msUntilExpiry_def split: option.splits)

lemma expirationAnalysis_expired:
  "expired (fst (expirationAnalysis e now v acc))
     = expired (fst acc) + (if expiresWithin e now (\<lambda>ms. ms \<le> - 86400000) v then 1 else 0)"
  by (simp add: expirationAnalysis_def Let_def permanentVip_def expiresWithin_days
        daysUntilExpiry_def ceilDays_cases split: option.splits)

lemma expirationAnalysis_today:
  "expiringToday (fst (expirationAnalysis e now v acc))
     = expiringToday (fst acc)
       + (if expiresWithin e now (\<lambda>ms. - 86400000 < ms \<and> ms \<le> 0) v then 1 else 0)"
  by (simp add: expirationAnalysis_def Let_def permanentVip_def expiresWithin_days
        daysUntilExpiry_def ceilDays_cases split: option.splits)

lemma expirationAnalysis_soon:
  "expiringSoon (fst (expirationAnalysis e now v acc))
     = expiringSoon (fst acc)
       + (if expiresWithin e now (\<lambda>ms. 0 < ms \<and> ms \<le> 7 * 86400000) v then 1 else 0)"
  by (auto simp add: expirationAnalysis_def Let_def permanentVip_def expiresWithin_days
        daysUntilExpiry_def ceilDays_cases split: option.splits)

lemma expirationAnalysis_alerts:
  "length (snd (expirationAnalysis e now v acc))
     = length (snd acc)
       + (if expiresWithin e now (\<lambda>ms. ms \<le> 7 * 86400000) v then 1 else 0)"
  by (auto simp add: expirationAnalysis_def Let_def permanentVip_def expiresWithin_days
        daysUntilExpiry_def ceilDays_cases split: option.splits)


lemma analyzeVip_counts:
  "total (fst (analyzeVip e now acc v)) = total (fst acc)"
  "permanent (fst (analyzeVip e now acc v))
     = permanent (fst acc) + (if permanentVip v then 1 else 0)"
  "temporary (fst (analyzeVip e now acc v))
     = temporary (fst acc) + (if \<not> permanentVip v then 1 else 0)"
  "expired (fst (analyzeVip e now acc v))
     = expired (fst acc) + (if expiresWithin e now (\<lambda>ms. ms \<le> - 86400000) v then 1 else 0)"
  "expiringToday (fst (analyzeVip e now acc v))
     = expiringToday (fst acc)
       + (if expiresWithin e now (\<lambda>ms. - 86400000 < ms \<and> ms \<le> 0) v then 1 else 0)"
  "expiringSoon (fst (analyzeVip e now acc v))
     = expiringSoon (fst acc)
       + (if expiresWithin e now (\<lambda>ms. 0 < ms \<and> ms \<le> 7 * 86400000) v then 1 else 0)"
  "length (snd (analyzeVip e now acc v))
     = length (snd acc) + (if expiresWithin e now (\<lambda>ms. ms \<le> 7 * 86400000) v then 1 else 0)"
  by (simp_all add: analyzeVip_def expirationAnalysis_total expirationAnalysis_permanent
        expirationAnalysis_temporary expirationAnalysis_expired expirationAnalysis_today
        expirationAnalysis_soon expirationAnalysis_alerts platformDetection_fields)

lemma pc_not_console:
  "prefix ''11000'' s \<or> prefix ''76561199'' s \<Longrightarrow> \<not> prefix ''76561198'' s"
  by (auto simp: prefix_def)

lemma analyzeVip_platforms:
  "pc (platforms (fst (analyzeVip e now acc v)))
     = pc (platforms (fst acc)) + (if prefix ''76561198'' (player_id v) then 1 else 0)"
  "console (platforms (fst (analyzeVip e now acc v)))
     = console (platforms (fst acc))
       + (if prefix ''11000'' (player_id v) \<or> prefix ''76561199'' (player_id v) then 1 else 0)"
  "unknown (platforms (fst (analyzeVip e now acc v)))
     = unknown (platforms (fst acc))
       + (if \<not> prefix ''76561198'' (player_id v) \<and> \<not> prefix ''11000'' (player_id v)
             \<and> \<not> prefix ''76561199'' (player_id v) then 1 else 0)"
  using pc_not_console[of "player_id v"]
  by (auto simp add: analyzeVip_def expirationAnalysis_platforms platformDetection_def Let_def
        startsWith_prefix)

lemma analyzeList_counts:
  "total (fst (analyzeList e now vs)) = length vs"
  "permanent (fst (analyzeList e now vs)) = length (filter permanentVip vs)"
  "temporary (fst (analyzeList e now vs)) = length (filter (\<lambda>v. \<not> permanentVip v) vs)"
  "expired (fst (analyzeList e now vs))
     = length (filter (expiresWithin e now (\<lambda>ms. ms \<le> - 86400000)) vs)"
  "expiringToday (fst (analyzeList e now vs))
     = length (filter (expiresWithin e now (\<lambda>ms. - 86400000 < ms \<and> ms \<le> 0)) vs)"
  "expiringSoon (fst (analyzeList e now vs))
     = length (filter (expiresWithin e now (\<lambda>ms. 0 < ms \<and> ms \<le> 7 * 86400000)) vs)"
  "length (snd (analyzeList e now vs))
     = length (filter (expiresWithin e now (\<lambda>ms. ms \<le> 7 * 86400000)) vs)"
proof -
  let ?f = "analyzeVip e now" and ?i = "(emptyAnalysis (length vs), [] :: string list)"
  show "total (fst (analyzeList e now vs)) = length vs"
    unfolding analyzeList_def
    by (subst foldl_keep[where g = "\<lambda>acc. total (fst acc)"])
       (simp_all add: analyzeVip_counts emptyAnalysis_def)
  show "permanent (fst (analyzeList e now vs)) = length (filter permanentVip vs)"
    unfolding analyzeList_def
    by (subst foldl_count[where g = "\<lambda>acc. permanent (fst acc)" and P = permanentVip])
       (simp_all add: analyzeVip_counts emptyAnalysis_def)
  show "temporary (fst (analyzeList e now vs)) = length (filter (\<lambda>v. \<not> permanentVip v) vs)"
    unfolding analyzeList_def
    by (subst foldl_count[where g = "\<lambda>acc. temporary (fst acc)" and P = "\<lambda>v. \<not> permanentVip v"])
       (simp_all add: analyzeVip_counts emptyAnalysis_def)
  show "expired (fst (analyzeList e now vs))
     = length (filter (expiresWithin e now (\<lambda>ms. ms \<le> - 86400000)) vs)"
    unfolding analyzeList_def
    by (subst foldl_count[where g = "\<lambda>acc. expired (fst acc)"
          and P = "expiresWithin e now (\<lambda>ms. ms \<le> - 86400000)"])
       (simp_all add: analyzeVip_counts emptyAnalysis_def)
  show "expiringToday (fst (analyzeList e now vs))
     = length (filter (expiresWithin e now (\<lambda>ms. - 86400000 < ms \<and> ms \<le> 0)) vs)"
    unfolding analyzeList_def
    by (subst foldl_count[where g = "\<lambda>acc. expiringToday (fst acc)"
          and P = "expiresWithin e now (\<lambda>ms. - 86400000 < ms \<and> ms \<le> 0)"])
       (simp_all add: analyzeVip_counts emptyAnalysis_def)
  show "expiringSoon (fst (analyzeList e now vs))
     = length (filter (expiresWithin e now (\<lambda>ms. 0 < ms \<and> ms \<le> 7 * 86400000)) vs)"
    unfolding analyzeList_def
    by (subst foldl_count[where g = "\<lambda>acc. expiringSoon (fst acc)"
          and P = "expiresWithin e now (\<lambda>ms. 0 < ms \<and> ms \<le> 7 * 86400000)"])
       (simp_all add: analyzeVip_counts emptyAnalysis_def)
  show "length (snd (analyzeList e now vs))
     = length (filter (expiresWithin e now (\<lambda>ms. ms \<le> 7 * 86400000)) vs)"
    unfolding analyzeList_def
    by (subst foldl_count[where g = "\<lambda>acc. length (snd acc)"
          and P = "expiresWithin e now (\<lambda>ms. ms \<le> 7 * 86400000)"])
       (simp_all add: analyzeVip_counts)
qed

lemma analyzeList_platforms:
  "pc (platforms (fst (analyzeList e now vs)))
     = length (filter (\<lambda>v. prefix ''76561198'' (player_id v)) vs)"
  "console (platforms (fst (analyzeList e now vs)))
     = length (filter (\<lambda>v. prefix ''11000'' (player_id v) \<or> prefix ''76561199'' (player_id v)) vs)"
  "unknown (platforms (fst (analyzeList e now vs)))
     = length (filter (\<lambda>v. \<not> prefix ''76561198'' (player_id v) \<and> \<not> prefix ''11000'' (player_id v)
                            \<and> \<not> prefix ''76561199'' (player_id v)) vs)"
proof -
  show "pc (platforms (fst (analyzeList e now vs)))
     = length (filter (\<lambda>v. prefix ''76561198'' (player_id v)) vs)"
    unfolding analyzeList_def
    by (subst foldl_count[where g = "\<lambda>acc. pc (platforms (fst acc))"
          and P = "\<lambda>v. prefix ''76561198'' (player_id v)"])
       (simp_all only: analyzeVip_platforms, simp add: emptyAnalysis_def)
  show "console (platforms (fst (analyzeList e now vs)))
     = length (filter (\<lambda>v. prefix ''11000'' (player_id v) \<or> prefix ''76561199'' (player_id v)) vs)"
    unfolding analyzeList_def
    by (subst foldl_count[where g = "\<lambda>acc. console (platforms (fst acc))"
          and P = "\<lambda>v. prefix ''11000'' (player_id v) \<or> prefix ''76561199'' (player_id v)"])
       (simp_all only: analyzeVip_platforms, simp add: emptyAnalysis_def)
  show "unknown (platforms (fst (analyzeList e now vs)))
     = length (filter (\<lambda>v. \<not> prefix ''76561198'' (player_id v) \<and> \<not> prefix ''11000'' (player_id v)
                            \<and> \<not> prefix ''76561199'' (player_id v)) vs)"
    unfolding analyzeList_def
    by (subst foldl_count[where g = "\<lambda>acc. unknown (platforms (fst acc))"
          and P = "\<lambda>v. \<not> prefix ''76561198'' (player_id v) \<and> \<not> prefix ''11000'' (player_id v)
                            \<and> \<not> prefix ''76561199'' (player_id v)"])
       (simp_all only: analyzeVip_platforms, simp add: emptyAnalysis_def)
qed

lemma bucket_partition:
  "length (filter (expiresWithin e now (\<lambda>ms. ms \<le> - 86400000)) vs)
   + length (filter (expiresWithin e now (\<lambda>ms. - 86400000 < ms \<and> ms \<le> 0)) vs)
   + length (filter (expiresWithin e now (\<lambda>ms. 0 < ms \<and> ms \<le> 7 * 86400000)) vs)
   + length (filter (\<lambda>v. \<not> permanentVip v \<and> \<not> expiresWithin e now (\<lambda>ms. ms \<le> 7 * 86400000) v) vs)
   = length (filter (\<lambda>v. \<not> permanentVip v) vs)"
  by (induction vs) (auto simp add: expiresWithin_days split: option.splits)

text \<open>
  C1. Whenever \<open>analyzeVips\<close> returns an analysis, its permanent and temporary counts add up
  to the total, which is the length of the list fetched, and the expired, expiring-today and
  expiring-soon counts together with the number of temporary records without alert (expiring
  later than 7 days, or with an unreadable date) add up to the temporary count.
\<close>

theorem analyzeVips_counts_partition:
  assumes "analyzeVips e w = (Inr a, w')"
  shows "permanent a + temporary a = total a
       \<and> expired a + expiringToday a + expiringSoon a \<le> temporary a
       \<and> (\<exists>vs. fetchedVips e w = Some vs \<and> total a = length vs
            \<and> expired a + expiringToday a + expiringSoon a
                + length (filter (\<lambda>v. \<not> permanentVip v
                     \<and> \<not> expiresWithin e (clock e (Suc (tick w))) (\<lambda>ms. ms \<le> 7 * 86400000) v) vs)
              = temporary a)"
proof -
  from analyzeVips_Inr[OF assms] obtain vs where
    f: "fetchedVips e w = Some vs" and a: "a = fst (analyzeList e (clock e (Suc (tick w))) vs)"
    by blast
  let ?now = "clock e (Suc (tick w))"
  have pt: "permanent a + temporary a = total a"
    unfolding a analyzeList_counts by (rule sum_length_filter_compl)
  have part: "expired a + expiringToday a + expiringSoon a
                + length (filter (\<lambda>v. \<not> permanentVip v
                     \<and> \<not> expiresWithin e ?now (\<lambda>ms. ms \<le> 7 * 86400000) v) vs)
              = temporary a"
    unfolding a analyzeList_counts by (rule bucket_partition)
  have tot: "total a = length vs"
    unfolding a by (rule analyzeList_counts)
  from part have "expired a + expiringToday a + expiringSoon a \<le> temporary a"
    by linarith
  with pt part tot f show ?thesis by blast
qed

lemma demo_analysis:
  "analyzeVips demoEnv world0
     = (Inr (fst (analyzeList demoEnv 1750000000000 demoVips)), snd (analyzeVips demoEnv world0))"
proof -
  have f: "fetchedVips demoEnv world0 = Some demoVips"
    by (simp add: fetchedVips_def demoEnv_def env0_def world0_def)
  have "fst (analyzeVips demoEnv world0)
          = Inr (fst (analyzeList demoEnv (clock demoEnv (Suc (tick world0))) demoVips))"
    by (rule analyzeVips_success[OF f]) (simp_all add: demoEnv_def env0_def)
  moreover have "clock demoEnv (Suc (tick world0)) = 1750000000000"
    by (simp add: demoEnv_def env0_def)
  ultimately show ?thesis
    by (metis prod.collapse)
qed

lemmas demo_eval = expiresWithin_def msUntilExpiry_def permanentVip_def demoVips_def
  demoParse_def demoEnv_def env0_def world0_def

theorem analyzeVips_counts_partition_witness:
  "analyzeVips demoEnv world0
     = (Inr (fst (analyzeList demoEnv 1750000000000 demoVips)), snd (analyzeVips demoEnv world0))
   \<and> total (fst (analyzeList demoEnv 1750000000000 demoVips)) = 7
   \<and> permanent (fst (analyzeList demoEnv 1750000000000 demoVips))
       + temporary (fst (analyzeList demoEnv 1750000000000 demoVips)) = 7
   \<and> expired (fst (analyzeList demoEnv 1750000000000 demoVips))
       + expiringToday (fst (analyzeList demoEnv 1750000000000 demoVips))
       + expiringSoon (fst (analyzeList demoEnv 1750000000000 demoVips)) + 1
       = temporary (fst (analyzeList demoEnv 1750000000000 demoVips))"
proof -
  have f: "fetchedVips demoEnv world0 = Some demoVips"
    by (simp add: fetchedVips_def demoEnv_def env0_def world0_def)
  have n: "length (filter (\<lambda>v. \<not> permanentVip v
                     \<and> \<not> expiresWithin demoEnv (clock demoEnv (Suc (tick world0)))
                            (\<lambda>ms. ms \<le> 7 * 86400000) v) demoVips) = 1"
    by (simp add: demo_eval)
  have l: "length demoVips = 7" by (simp add: demoVips_def)
  show ?thesis
    using analyzeVips_counts_partition[OF demo_analysis] demo_analysis f n l
    by auto
qed

text \<open>
  C2. Whenever \<open>analyzeVips\<close> returns an analysis of the list fetched, a record with a
  readable expiration is counted by the day ceiling of the milliseconds left: expired when the
  expiration is a whole day or more before the clock reading, expiring today when it is less
  than a day before the clock reading or exactly at it, expiring soon when it is after the
  clock reading and at most 7 days after it; later ones are in no bucket and get no alert
  line. A record that expired one millisecond ago is therefore counted as expiring today, not
  as expired (the counterexample).
\<close>

theorem analyzeVips_expiry_buckets:
  assumes "analyzeVips e w = (Inr a, w')" and "fetchedVips e w = Some vs"
  shows "let now = clock e (Suc (tick w))
         in expired a = length (filter (expiresWithin e now (\<lambda>ms. ms \<le> - 86400000)) vs)
          \<and> expiringToday a
              = length (filter (expiresWithin e now (\<lambda>ms. - 86400000 < ms \<and> ms \<le> 0)) vs)
          \<and> expiringSoon a
              = length (filter (expiresWithin e now (\<lambda>ms. 0 < ms \<and> ms \<le> 7 * 86400000)) vs)
          \<and> length (snd (analyzeList e now vs))
              = length (filter (expiresWithin e now (\<lambda>ms. ms \<le> 7 * 86400000)) vs)"
proof -
  from analyzeVips_Inr[OF assms(1)] assms(2)
  have a: "a = fst (analyzeList e (clock e (Suc (tick w))) vs)" by auto
  show ?thesis
    unfolding Let_def a by (simp only: analyzeList_counts simp_thms)
qed

theorem analyzeVips_expiry_buckets_witness:
  "analyzeVips demoEnv world0
     = (Inr (fst (analyzeList demoEnv 1750000000000 demoVips)), snd (analyzeVips demoEnv world0))
   \<and> fetchedVips demoEnv world0 = Some demoVips
   \<and> expired (fst (analyzeList demoEnv 1750000000000 demoVips)) = 1
   \<and> expiringToday (fst (analyzeList demoEnv 1750000000000 demoVips)) = 2
   \<and> expiringSoon (fst (analyzeList demoEnv 1750000000000 demoVips)) = 1
   \<and> map name (filter (expiresWithin demoEnv 1750000000000 (\<lambda>ms. - 86400000 < ms \<and> ms \<le> 0))
        demoVips) = [''Bravo'', ''Charlie'']"
proof -
  have f: "fetchedVips demoEnv world0 = Some demoVips"
    by (simp add: fetchedVips_def demoEnv_def env0_def world0_def)
  have c: "clock demoEnv (Suc (tick world0)) = 1750000000000"
    by (simp add: demoEnv_def env0_def)
  have n: "length (filter (expiresWithin demoEnv 1750000000000 (\<lambda>ms. ms \<le> - 86400000)) demoVips) = 1"
    "length (filter (expiresWithin demoEnv 1750000000000 (\<lambda>ms. - 86400000 < ms \<and> ms \<le> 0))
       demoVips) = 2"
    "length (filter (expiresWithin demoEnv 1750000000000 (\<lambda>ms. 0 < ms \<and> ms \<le> 7 * 86400000))
       demoVips) = 1"
    "map name (filter (expiresWithin demoEnv 1750000000000 (\<lambda>ms. - 86400000 < ms \<and> ms \<le> 0))
        demoVips) = [''Bravo'', ''Charlie'']"
    by (simp_all add: demo_eval)
  show ?thesis
    using analyzeVips_expiry_buckets[OF demo_analysis f] demo_analysis f n
    by (simp add: Let_def c)
qed

theorem analyzeVips_expiry_counterexample:
  "fst (analyzeVips lateEnv world0) = Inr lateAnalysis
   \<and> parseDate lateEnv ''2025-06-15T15:06:39.999Z'' = Some (clock lateEnv 1 - 1)
   \<and> expired lateAnalysis = 0 \<and> expiringToday lateAnalysis = 1"
proof -
  have f: "fetchedVips lateEnv world0 = Some [demoVips ! 2]"
    by (simp add: fetchedVips_def lateEnv_def env0_def world0_def)
  have "fst (analyzeVips lateEnv world0)
          = Inr (fst (analyzeList lateEnv (clock lateEnv (Suc (tick world0))) [demoVips ! 2]))"
    by (rule analyzeVips_success[OF f]) (simp_all add: lateEnv_def env0_def)
  moreover have "fst (analyzeList lateEnv (clock lateEnv (Suc (tick world0))) [demoVips ! 2])
          = lateAnalysis"
    by (simp add: analyzeList_def analyzeVip_def platformDetection_def expirationAnalysis_def
          daysUntilExpiry_def ceilDays_def msPerDay_def emptyAnalysis_def lateAnalysis_def
          lateEnv_def env0_def world0_def demoVips_def demoParse_def Let_def)
  ultimately show ?thesis
    by (simp add: lateAnalysis_def lateEnv_def env0_def demoParse_def)
qed

text \<open>
  C3. Whenever \<open>analyzeVips\<close> returns an analysis of the list fetched, the pc count is the
  number of identifiers with prefix 76561198, the console count the number of those with
  prefix 11000 or 76561199, the unknown count the number of all others, and the three add up
  to the length of the list. The witness has the identifiers 76561198000000001,
  1100000100000001 and 990000000, counted pc, console and unknown.
\<close>

theorem analyzeVips_platform_counts:
  assumes "analyzeVips e w = (Inr a, w')" and "fetchedVips e w = Some vs"
  shows "pc (platforms a) = length (filter (\<lambda>v. prefix ''76561198'' (player_id v)) vs)
       \<and> console (platforms a)
           = length (filter (\<lambda>v. prefix ''11000'' (player_id v)
                                  \<or> prefix ''76561199'' (player_id v)) vs)
       \<and> unknown (platforms a)
           = length (filter (\<lambda>v. \<not> prefix ''76561198'' (player_id v)
                                  \<and> \<not> prefix ''11000'' (player_id v)
                                  \<and> \<not> prefix ''76561199'' (player_id v)) vs)
       \<and> pc (platforms a) + console (platforms a) + unknown (platforms a) = length vs"
proof -
  from analyzeVips_Inr[OF assms(1)] assms(2)
  have a: "a = fst (analyzeList e (clock e (Suc (tick w))) vs)" by auto
  have "length (filter (\<lambda>v. prefix ''76561198'' (player_id v)) vs)
        + length (filter (\<lambda>v. prefix ''11000'' (player_id v) \<or> prefix ''76561199'' (player_id v)) vs)
        + length (filter (\<lambda>v. \<not> prefix ''76561198'' (player_id v)
                                  \<and> \<not> prefix ''11000'' (player_id v)
                                  \<and> \<not> prefix ''76561199'' (player_id v)) vs) = length vs"
    using pc_not_console by (induction vs) auto
  then show ?thesis
    unfolding a by (simp only: analyzeList_platforms simp_thms)
qed

theorem analyzeVips_platform_counts_witness:
  "map player_id (take 3 demoVips) = [''76561198000000001'', ''1100000100000001'', ''990000000'']
   \<and> fetchedVips platformEnv world0 = Some (take 3 demoVips)
   \<and> fst (analyzeVips platformEnv world0)
       = Inr (fst (analyzeList platformEnv 1750000000000 (take 3 demoVips)))
   \<and> platforms (fst (analyzeList platformEnv 1750000000000 (take 3 demoVips)))
       = \<lparr>pc = 1, console = 1, unknown = 1\<rparr>
   \<and> map player_id (filter (\<lambda>v. prefix ''76561198'' (player_id v)) (take 3 demoVips))
       = [''76561198000000001'']
   \<and> map player_id (filter (\<lambda>v. prefix ''11000'' (player_id v)
                                  \<or> prefix ''76561199'' (player_id v)) (take 3 demoVips))
       = [''1100000100000001'']"
proof -
  have f: "fetchedVips platformEnv world0 = Some (take 3 demoVips)"
    by (simp add: fetchedVips_def platformEnv_def env0_def world0_def)
  have r: "fst (analyzeVips platformEnv world0)
          = Inr (fst (analyzeList platformEnv (clock platformEnv (Suc (tick world0)))
                   (take 3 demoVips)))"
    by (rule analyzeVips_success[OF f]) (simp_all add: platformEnv_def env0_def)
  then have h: "analyzeVips platformEnv world0
          = (Inr (fst (analyzeList platformEnv (clock platformEnv (Suc (tick world0)))
                   (take 3 demoVips))), snd (analyzeVips platformEnv world0))"
    by (metis prod.collapse)
  have ids: "map player_id (take 3 demoVips)
               = [''76561198000000001'', ''1100000100000001'', ''990000000'']"
    by (simp add: demoVips_def)
  have n: "length (filter (\<lambda>v. prefix ''76561198'' (player_id v)) (take 3 demoVips)) = 1"
    "length (filter (\<lambda>v. prefix ''11000'' (player_id v) \<or> prefix ''76561199'' (player_id v))
       (take 3 demoVips)) = 1"
    "length (filter (\<lambda>v. \<not> prefix ''76561198'' (player_id v) \<and> \<not> prefix ''11000'' (player_id v)
                                  \<and> \<not> prefix ''76561199'' (player_id v)) (take 3 demoVips)) = 1"
    "map player_id (filter (\<lambda>v. prefix ''76561198'' (player_id v)) (take 3 demoVips))
       = [''76561198000000001'']"
    "map player_id (filter (\<lambda>v. prefix ''11000'' (player_id v)
                                  \<or> prefix ''76561199'' (player_id v)) (take 3 demoVips))
       = [''1100000100000001'']"
    by (simp_all add: demoVips_def)
  have c: "clock platformEnv (Suc (tick world0)) = 1750000000000"
    by (simp add: platformEnv_def env0_def)
  show ?thesis
    using analyzeVips_platform_counts[OF h f] r ids f n unfolding c
    by (cases "platforms (fst (analyzeList platformEnv 1750000000000 (take 3 demoVips)))") simp
qed

section \<open>The scheduled operations\<close>

lemma cleanupLoop_frame [frame]:
  "requests (snd (cleanupLoop e c ns (n, w))) = requests w"
  "webhook (snd (cleanupLoop e c ns (n, w))) = webhook w"
  by (induction ns arbitrary: n w) (auto simp: frame split: option.splits)

lemma cleanupOldBackups_frame [frame]:
  "requests (snd (cleanupOldBackups e k w)) = requests w"
  "webhook (snd (cleanupOldBackups e k w)) = webhook w"
  by (simp_all add: cleanupOldBackups_def Let_def split_beta frame)

lemma testConnection_frame [frame]:
  "dir (snd (testConnection e w)) = dir w"
  "webhook (snd (testConnection e w)) = webhook w"
  by (simp_all add: testConnection_def Let_def split_beta frame split: sum.splits option.splits)

lemma formatVipList_frame [frame]:
  "dir (snd (formatVipList e vs w)) = dir w"
  "requests (snd (formatVipList e vs w)) = requests w"
  "webhook (snd (formatVipList e vs w)) = webhook w"
  by (simp_all add: formatVipList_def Let_def split_beta frame)

lemma fetchVipData_frame [frame]:
  "dir (snd (fetchVipData e w)) = dir w"
  "webhook (snd (fetchVipData e w)) = webhook w"
  by (simp_all add: fetchVipData_def Let_def split_beta frame split: sum.splits option.splits)






lemma analyzeList_parse_only:
  "parseDate e' = parseDate e \<Longrightarrow> analyzeList e' now vs = analyzeList e now vs"
proof -
  assume p: "parseDate e' = parseDate e"
  have d: "daysUntilExpiry e' = daysUntilExpiry e"
    by (intro ext) (simp add: daysUntilExpiry_def p)
  have "analyzeVip e' now = analyzeVip e now"
    by (intro ext) (simp add: analyzeVip_def expirationAnalysis_def Let_def d)
  then show ?thesis by (simp add: analyzeList_def)
qed

lemma writeFile_dir:
  "dir w = Present r es \<Longrightarrow> writeError e (tick w) = None \<Longrightarrow>
   dir (snd (writeFile e f d w)) = Present r
     (AList.update f \<lparr>mtime = clock e (tick w), content = d\<rparr> es)"
  by (simp add: writeFile_def Let_def)

lemma reportAnalysis_dir:
  assumes "fst (reportAnalysis e a al w) = Inr a'"
  shows "\<exists>r es path stamp t. dir (snd (reportAnalysis e a al w)) = Present r es
           \<and> map_of es path = Some \<lparr>mtime = t, content = reportContent stamp a al\<rparr>"
proof -
  let ?w3 = "snd (newDate e (snd (fileTimestamp e (printReport a w))))"
  let ?w4 = "snd (mkdir e ?w3)"
  let ?f = "''vip_analysis_'' @ fst (fileTimestamp e (printReport a w)) @ ''.txt''"
  let ?c = "reportContent (toISOString e (fst (newDate e (snd (fileTimestamp e (printReport a w))))))
              a al"
  from assms have mk: "mkdirError e (Suc (Suc (tick w))) = None"
    and wr: "writeError e (Suc (Suc (Suc (tick w)))) = None"
    by (auto simp add: reportAnalysis_result split: option.splits)
  have t3: "tick ?w3 = Suc (Suc (tick w))" by (simp add: frame)
  have t4: "tick ?w4 = Suc (Suc (Suc (tick w)))" by (simp add: frame)
  have "dir ?w4 \<noteq> Missing" using mkdir_dir(1)[of e ?w3] mk t3 by simp
  then obtain r es where d4: "dir ?w4 = Present r es" by (cases "dir ?w4") auto
  have wr4: "writeError e (tick ?w4) = None" using wr t4 by simp
  note d5 = writeFile_dir[OF d4 wr4, of ?f ?c]
  have mk': "fst (mkdir e ?w3) = None" using mk by (simp add: frame)
  have wr': "fst (writeFile e ?f ?c ?w4) = None"
    using d4 wr4 by (simp add: writeFile_result)
  have "dir (snd (reportAnalysis e a al w)) = dir (snd (writeFile e ?f ?c ?w4))"
    unfolding reportAnalysis_def Let_def split_beta mk' wr'
    by (simp add: frame)
  with d5 show ?thesis
    by (auto simp add: update_conv' intro!: exI)
qed

lemma analyzeVips_report:
  assumes "analyzeVips e w = (Inr a, w')" and "fetchedVips e w = Some vs"
  shows "\<exists>r es path stamp t. dir w' = Present r es
           \<and> map_of es path
               = Some \<lparr>mtime = t,
                       content = reportContent stamp a (snd (analyzeList e (clock e (Suc (tick w))) vs))\<rparr>"
proof -
  let ?a = "fst (analyzeList e (clock e (Suc (tick w))) vs)"
  let ?al = "snd (analyzeList e (clock e (Suc (tick w))) vs)"
  let ?w3 = "snd (newDate e (snd (makeRequest e ''/api/get_vip_ids'' (getVipIds e)
                                    (log LInfo ''Analyzing VIP data...'' w))))"
  from assms(2) have m: "fst (makeRequest e ''/api/get_vip_ids'' (getVipIds e) w) = Inr (Some vs)"
    by (simp add: makeRequest_vips)
  have u: "analyzeVips e w = reportAnalysis e ?a ?al ?w3"
    by (simp add: analyzeVips_unfold m)
  from analyzeVips_Inr[OF assms(1)] assms(2) have a: "a = ?a" by auto
  from assms(1) u have r: "fst (reportAnalysis e ?a ?al ?w3) = Inr a" by simp
  from reportAnalysis_dir[OF r] assms(1) u show ?thesis
    by (simp add: a)
qed

named_theorems out

lemma stdout_log [out]: "stdout (log l m w) = stdout w @ [Log l m]"
  by (simp add: log_def)

lemma stdout_print [out]: "stdout (print m w) = stdout w @ [Print m]"
  by (simp add: print_def)

lemma stdout_kept [out]:
  "stdout (snd (newDate e w)) = stdout w"
  "stdout (snd (fileTimestamp e w)) = stdout w"
  "stdout (snd (mkdir e w)) = stdout w"
  "stdout (snd (writeFile e f d w)) = stdout w"
  by (simp_all add: newDate_def fileTimestamp_def mkdir_def writeFile_def Let_def split_beta
        split: option.splits directory.splits)

lemma makeRequest_stdout [out]:
  "stdout (snd (makeRequest e ep orc w))
     = stdout w @ (if truthy (apiToken e) then [Log LInfo (''Making GET request to '' @ ep)] else [])"
  by (simp add: makeRequest_def Let_def log_def split: http_response.splits)

lemma sendDiscordNotification_stdout [out]:
  "stdout (sendDiscordNotification e t d c w) = stdout w @ [notificationLog e (tick w)]"
  by (simp add: sendDiscordNotification_def notificationLog_def Let_def log_def
        split: option.splits)

lemma printReport_stdout [out]: "stdout (printReport a w) = stdout w @ reportLines a"
  by (simp add: printReport_def reportLines_def Let_def print_def)

lemma foldl_lines:
  "foldl (\<lambda>content alert. content @ alert @ newline) h alerts
     = h @ concat (map (\<lambda>alert. alert @ newline) alerts)"
  by (induction alerts arbitrary: h) simp_all

lemma reportContent_text: "reportContent stamp a alerts = reportText stamp a alerts"
  by (simp add: reportContent_def reportText_def Let_def foldl_lines)

lemma reportAnalysis_stdout:
  assumes "fst (reportAnalysis e a al w) = Inr a'"
  shows "stdout (snd (reportAnalysis e a al w))
           = stdout w @ reportLines a
             @ (if expired a > 0 \<or> expiringToday a > 0 \<or> expiringSoon a > 0
                then [notificationLog e (Suc (Suc (Suc (Suc (tick w)))))] else [])"
proof -
  let ?w3 = "snd (newDate e (snd (fileTimestamp e (printReport a w))))"
  let ?w4 = "snd (mkdir e ?w3)"
  from assms have mk: "mkdirError e (Suc (Suc (tick w))) = None"
    and wr: "writeError e (Suc (Suc (Suc (tick w)))) = None"
    by (auto simp add: reportAnalysis_result split: option.splits)
  have t3: "tick ?w3 = Suc (Suc (tick w))" by (simp add: frame)
  have "dir ?w4 \<noteq> Missing" using mkdir_dir(1)[of e ?w3] mk t3 by simp
  then have wr': "fst (writeFile e f d ?w4) = None" for f d
    using wr by (simp add: writeFile_result frame)
  have mk': "fst (mkdir e ?w3) = None" using mk by (simp add: frame)
  show ?thesis
    unfolding reportAnalysis_def Let_def split_beta mk' wr'
    by (simp add: frame out)
qed

lemma analyzeVips_stdout:
  assumes "analyzeVips e w = (Inr a, w')"
  shows "stdout w'
           = stdout w
             @ [Log LInfo ''Analyzing VIP data...'',
                Log LInfo ''Making GET request to /api/get_vip_ids'']
             @ reportLines a
             @ (if expired a > 0 \<or> expiringToday a > 0 \<or> expiringSoon a > 0
                then [notificationLog e (Suc (Suc (Suc (Suc (Suc (Suc (tick w)))))))] else [])"
proof -
  from analyzeVips_Inr[OF assms] obtain vs where
    f: "fetchedVips e w = Some vs" and a: "a = fst (analyzeList e (clock e (Suc (tick w))) vs)"
    by blast
  let ?al = "snd (analyzeList e (clock e (Suc (tick w))) vs)"
  let ?w3 = "snd (newDate e (snd (makeRequest e ''/api/get_vip_ids'' (getVipIds e)
                                    (log LInfo ''Analyzing VIP data...'' w))))"
  from f have m: "fst (makeRequest e ''/api/get_vip_ids'' (getVipIds e) w) = Inr (Some vs)"
    by (simp add: makeRequest_vips)
  from f have tok: "truthy (apiToken e)" by (auto simp: fetchedVips_def split: if_splits)
  have u: "analyzeVips e w = reportAnalysis e a ?al ?w3"
    by (simp add: analyzeVips_unfold m a)
  from assms u have r: "fst (reportAnalysis e a ?al ?w3) = Inr a" by simp
  have t3: "tick ?w3 = Suc (Suc (tick w))" by (simp add: frame tok)
  have s3: "stdout ?w3 = stdout w @ [Log LInfo ''Analyzing VIP data...'',
                Log LInfo ''Making GET request to /api/get_vip_ids'']"
    by (simp add: out tok)
  from reportAnalysis_stdout[OF r] assms u show ?thesis
    by (simp add: t3 s3)
qed

text \<open>
  C10. The counts that \<open>analyzeVips\<close> returns are a function of the list fetched, the clock
  reading and the date parser alone. The operation itself is not free of effects: it requests
  the list, prints the report on the console, writes a report file with the counts and the
  alert lines into the backup directory and, when a bucket is not empty, sends one status
  alert, which is posted when a webhook is configured; it returns the counts only. The
  counterexample is a run that changes the console, the requests made, the backup directory
  and the notifications posted.
\<close>

theorem analyzeVips_effects:
  assumes "analyzeVips e w = (Inr a, w')"
  shows "\<exists>vs. fetchedVips e w = Some vs
      \<and> a = fst (analyzeList e (clock e (Suc (tick w))) vs)
      \<and> (\<forall>e'. parseDate e' = parseDate e \<longrightarrow>
             analyzeList e' (clock e (Suc (tick w))) vs = analyzeList e (clock e (Suc (tick w))) vs)
      \<and> requests w' = requests w @ [''/api/get_vip_ids'']
      \<and> stdout w'
           = stdout w
             @ [Log LInfo ''Analyzing VIP data...'',
                Log LInfo ''Making GET request to /api/get_vip_ids'']
             @ reportLines a
             @ (if expired a > 0 \<or> expiringToday a > 0 \<or> expiringSoon a > 0
                then [notificationLog e (Suc (Suc (Suc (Suc (Suc (Suc (tick w)))))))] else [])
      \<and> (\<exists>r es path stamp t. dir w' = Present r es
           \<and> map_of es path
               = Some \<lparr>mtime = t,
                       content = reportText stamp a (snd (analyzeList e (clock e (Suc (tick w))) vs))\<rparr>)
      \<and> webhook w' = webhook w @
          (if truthy (webhookUrl e) \<and> (expired a > 0 \<or> expiringToday a > 0 \<or> expiringSoon a > 0)
           then [discordEmbed ''VIP Status Alert'' (statusAlert a) 0xFF8C00] else [])"
proof -
  from analyzeVips_Inr[OF assms] obtain vs where
    f: "fetchedVips e w = Some vs" and a: "a = fst (analyzeList e (clock e (Suc (tick w))) vs)"
    by blast
  from f have tok: "truthy (apiToken e)" by (auto simp: fetchedVips_def split: if_splits)
  have rq: "requests w' = requests w @ [''/api/get_vip_ids'']"
    using analyzeVips_requests[of e w] assms tok by simp
  have wh: "webhook w' = webhook w @
          (if truthy (webhookUrl e) \<and> (expired a > 0 \<or> expiringToday a > 0 \<or> expiringSoon a > 0)
           then [discordEmbed ''VIP Status Alert'' (statusAlert a) 0xFF8C00] else [])"
    using analyzeVips_webhook[of e w] assms by simp
  note so = analyzeVips_stdout[OF assms]
  note rp = analyzeVips_report[OF assms f, unfolded reportContent_text]
  from f a rq wh so rp analyzeList_parse_only show ?thesis
    by blast
qed

theorem analyzeVips_effects_witness:
  "analyzeVips demoEnv world0
     = (Inr (fst (analyzeList demoEnv 1750000000000 demoVips)), snd (analyzeVips demoEnv world0))
   \<and> requests (snd (analyzeVips demoEnv world0)) = [''/api/get_vip_ids'']
   \<and> stdout (snd (analyzeVips demoEnv world0))
       = [Log LInfo ''Analyzing VIP data...'',
          Log LInfo ''Making GET request to /api/get_vip_ids'']
         @ reportLines (fst (analyzeList demoEnv 1750000000000 demoVips))
         @ [Log LSuccess ''Discord notification sent successfully'']
   \<and> webhook (snd (analyzeVips demoEnv world0))
       = [discordEmbed ''VIP Status Alert''
            (statusAlert (fst (analyzeList demoEnv 1750000000000 demoVips))) 0xFF8C00]"
proof -
  have ex: "expired (fst (analyzeList demoEnv 1750000000000 demoVips)) = 1"
    by (simp add: analyzeList_counts demo_eval)
  have u: "truthy (webhookUrl demoEnv)" by (simp add: demoEnv_def env0_def)
  have n: "notificationLog demoEnv t = Log LSuccess ''Discord notification sent successfully''"
    for t by (simp add: notificationLog_def demoEnv_def env0_def)
  have w0: "requests world0 = []" "webhook world0 = []" "stdout world0 = []"
    by (simp_all add: world0_def)
  from analyzeVips_effects[OF demo_analysis] show ?thesis
    using demo_analysis ex u w0 n by auto
qed

theorem analyzeVips_effects_counterexample:
  "stdout (snd (analyzeVips demoEnv world0)) \<noteq> stdout world0
   \<and> requests (snd (analyzeVips demoEnv world0)) \<noteq> requests world0
   \<and> dir (snd (analyzeVips demoEnv world0)) \<noteq> dir world0
   \<and> webhook (snd (analyzeVips demoEnv world0)) \<noteq> webhook world0"
proof -
  have f: "fetchedVips demoEnv world0 = Some demoVips"
    by (simp add: fetchedVips_def demoEnv_def env0_def world0_def)
  have ex: "expired (fst (analyzeList demoEnv 1750000000000 demoVips)) = 1"
    by (simp add: analyzeList_counts demo_eval)
  have u: "truthy (webhookUrl demoEnv)" "truthy (apiToken demoEnv)"
    by (simp_all add: demoEnv_def env0_def)
  have r: "fst (analyzeVips demoEnv world0) = Inr (fst (analyzeList demoEnv 1750000000000 demoVips))"
    using demo_analysis by (metis fst_conv)
  have 0: "stdout (snd (analyzeVips demoEnv world0)) \<noteq> stdout world0"
    using analyzeVips_stdout[OF demo_analysis] by simp
  have 1: "requests (snd (analyzeVips demoEnv world0)) \<noteq> requests world0"
    by (simp add: analyzeVips_requests u)
  have 2: "dir (snd (analyzeVips demoEnv world0)) \<noteq> dir world0"
    using analyzeVips_report[OF demo_analysis f] by (auto simp add: world0_def)
  have 3: "webhook (snd (analyzeVips demoEnv world0)) \<noteq> webhook world0"
    by (simp add: analyzeVips_webhook r ex u)
  from 0 1 2 3 show ?thesis by simp
qed










section \<open>The fallback formatter\<close>

lemma foldl_append_concat:
  "foldl (\<lambda>acc v. acc @ f v) h vs = h @ concat (map f vs)"
  by (induction vs arbitrary: h) simp_all

lemma formatVipList_text:
  "fst (formatVipList e vs w) =
     ''# VIP File Generated '' @ toISOString e (clock e (tick w)) @ newline
     @ ''# Total VIPs: '' @ show_nat (length vs) @ newline
     @ ''# Format: STEAM_ID_64 # Player_Name (expiration)'' @ newline @ newline
     @ concat (map formatVip vs)"
  by (simp add: formatVipList_def Let_def split_beta newDate_def foldl_append_concat)

lemma splitLines_line:
  "CHR 0x0A \<notin> set l \<Longrightarrow> splitLines (l @ CHR 0x0A # rest) = l # splitLines rest"
  by (induction l) auto

lemma splitLines_lines:
  "\<forall>l \<in> set ls. CHR 0x0A \<notin> set l \<Longrightarrow>
   splitLines (concat (map (\<lambda>l. l @ newline) ls)) = ls @ [[]]"
  by (induction ls) (simp_all add: newline_def splitLines_line)

lemma digit_not_newline: "d < 10 \<Longrightarrow> digit d \<noteq> CHR 0x0A"
proof -
  assume "d < 10"
  then have "d \<in> {0,1,2,3,4,5,6,7,8,9}" by auto
  then show ?thesis by (auto simp: digit_def)
qed

lemma show_nat_no_newline: "CHR 0x0A \<notin> set (show_nat n)"
proof (induction n rule: show_nat.induct)
  case (1 n)
  show ?case
  proof (cases "n < 10")
    case True
    then show ?thesis
      using digit_not_newline[of n] by (subst show_nat.simps) auto
  next
    case False
    with 1 show ?thesis
      using digit_not_newline[of "n mod 10"] by (subst show_nat.simps) auto
  qed
qed

lemma formatVip_line: "formatVip v = recordLine v @ newline"
  by (simp add: recordLine_def formatVip_def Let_def newline_def butlast_append)

lemma recordLine_no_newline: "parseable v \<Longrightarrow> CHR 0x0A \<notin> set (recordLine v)"
  by (auto simp add: recordLine_def formatVip_def Let_def newline_def butlast_append parseable_def
        permanentVip_def)

lemma recordLines_formatVipList:
  assumes "\<forall>v \<in> set vs. parseable v" and "CHR 0x0A \<notin> set (toISOString e (clock e (tick w)))"
  shows "recordLines (fst (formatVipList e vs w)) = map recordLine vs"
proof -
  let ?h1 = "''# VIP File Generated '' @ toISOString e (clock e (tick w))"
  let ?h2 = "''# Total VIPs: '' @ show_nat (length vs)"
  let ?h3 = "''# Format: STEAM_ID_64 # Player_Name (expiration)''"
  let ?body = "concat (map (\<lambda>l. l @ newline) (map recordLine vs))"
  have body: "concat (map formatVip vs) = ?body"
    by (simp add: formatVip_line[abs_def] comp_def)
  have t: "fst (formatVipList e vs w)
             = ?h1 @ CHR 0x0A # (?h2 @ CHR 0x0A # (?h3 @ CHR 0x0A # (CHR 0x0A # ?body)))"
    unfolding formatVipList_text body by (simp add: newline_def)
  have n1: "CHR 0x0A \<notin> set ?h1" using assms(2) by simp
  have n2: "CHR 0x0A \<notin> set ?h2" using show_nat_no_newline by simp
  have n3: "CHR 0x0A \<notin> set ?h3" by simp
  have ls: "\<forall>l \<in> set (map recordLine vs). CHR 0x0A \<notin> set l"
    using assms(1) by (auto simp: recordLine_no_newline)
  have "splitLines (fst (formatVipList e vs w))
          = ?h1 # ?h2 # ?h3 # [] # (map recordLine vs @ [[]])"
    unfolding t
    by (simp only: splitLines_line[OF n1] splitLines_line[OF n2] splitLines_line[OF n3]
          splitLines.simps splitLines_lines[OF ls]) simp
  then show ?thesis
    by (simp add: recordLines_def)
qed

lemma parse_recordLine:
  assumes "parseable v"
  shows "parsePlayerId (recordLine v) = player_id v"
    and "parsePermanent (recordLine v) = permanentVip v"
proof -
  let ?rest = "(if \<not> permanentVip v then '' (expires: '' @ orElse (expiration v) [] @ '')''
             else '' (permanent)'')
            @ (if truthy (description v) then '' - '' @ orElse (description v) [] else [])"
  have l: "recordLine v = player_id v @ CHR '' '' # (''# '' @ name v @ ?rest)"
    by (simp add: recordLine_def formatVip_def Let_def newline_def butlast_append)
  from assms have i: "\<forall>c \<in> set (player_id v). c \<noteq> CHR '' ''"
    and n: "\<forall>c \<in> set (name v). c \<noteq> CHR ''(''"
    by (auto simp: parseable_def)
  show "parsePlayerId (recordLine v) = player_id v"
    unfolding parsePlayerId_def l using i by (simp add: takeWhile_append2)
  have d1: "dropWhile (\<lambda>c. c \<noteq> CHR '' '') (recordLine v) = CHR '' '' # (''# '' @ name v @ ?rest)"
    unfolding l using i by (simp add: dropWhile_append2)
  have d2: "dropWhile (\<lambda>c. c \<noteq> CHR ''('') (name v @ ?rest)
              = dropWhile (\<lambda>c. c \<noteq> CHR ''('') ?rest"
    using n by (simp add: dropWhile_append2)
  show "parsePermanent (recordLine v) = permanentVip v"
    unfolding parsePermanent_def d1 by (simp add: d2)
qed

text \<open>
  C9. For every list of parseable records, and a time stamp without line break, reading the
  record lines of the text generated by \<open>formatVipList\<close> back gives the player identifier and
  the permanent-or-expiring status of every record, in order. Without the restriction the
  text does not determine the status: a permanent record whose description ends like an
  expiration and an expiring record whose name ends like a permanent marker generate the same
  text (the counterexample).
\<close>

theorem formatVipList_roundtrip:
  assumes "\<forall>v \<in> set vs. parseable v"
    and "CHR 0x0A \<notin> set (toISOString e (clock e (tick w)))"
  shows "map (\<lambda>l. (parsePlayerId l, parsePermanent l)) (recordLines (fst (formatVipList e vs w)))
           = map (\<lambda>v. (player_id v, permanentVip v)) vs"
  unfolding recordLines_formatVipList[OF assms] map_map comp_def
  using assms(1) by (intro map_cong[OF refl]) (simp add: parse_recordLine)

theorem formatVipList_roundtrip_witness:
  "list_all parseable demoVips
   \<and> CHR 0x0A \<notin> set (toISOString env0 (clock env0 (tick world0)))
   \<and> map (\<lambda>l. (parsePlayerId l, parsePermanent l))
         (recordLines (fst (formatVipList env0 demoVips world0)))
       = [(''76561198000000001'', True), (''1100000100000001'', False), (''990000000'', False),
          (''76561199000000002'', False), (''76561198000000003'', False),
          (''76561198000000004'', False), (''76561198000000005'', True)]"
proof -
  have p: "\<forall>v \<in> set demoVips. parseable v"
    by (simp add: demoVips_def parseable_def)
  have n: "CHR 0x0A \<notin> set (toISOString env0 (clock env0 (tick world0)))"
    by (simp add: env0_def)
  have l: "list_all parseable demoVips"
    using p by (simp add: list_all_iff)
  show ?thesis
    using l n formatVipList_roundtrip[OF p n]
    by (simp add: demoVips_def permanentVip_def)
qed

theorem formatVipList_roundtrip_counterexample:
  "fst (formatVipList env0 [ambiguousPermanent] world0)
     = fst (formatVipList env0 [ambiguousTemporary] world0)
   \<and> permanentVip ambiguousPermanent \<and> \<not> permanentVip ambiguousTemporary"
  by (simp add: formatVipList_text formatVip_def Let_def permanentVip_def
        ambiguousPermanent_def ambiguousTemporary_def)

section \<open>The scheduler\<close>

lemma start_running:
  "isRunning s \<Longrightarrow> start e (s, w) = (None, s, serviceLog LWarning ''Service is already running'' w)"
  by (simp add: start_def)

lemma stop_stopped:
  "\<not> isRunning s \<Longrightarrow> stop (s, w) = (s, serviceLog LWarning ''Service is not running'' w)"
  by (simp add: stop_def)

lemma start_stopped:
  assumes "cronValidate e (backupSchedule e)" "cronValidate e (alertSchedule e)" "\<not> isRunning s"
  shows "fst (start e (s, w)) = None"
    and "isRunning (fst (snd (start e (s, w))))"
    and "tasks (fst (snd (start e (s, w)))) = tasks s @ [(BackupJob, True), (HealthJob, True)]"
  using assms by (simp_all add: start_def Let_def list_update_append)

lemma stop_running:
  assumes "isRunning s"
  shows "\<not> isRunning (fst (stop (s, w)))" and "firing (fst (stop (s, w))) = []"
  using assms by (simp_all add: stop_def Let_def firing_def filter_map comp_def)

text \<open>
  C8. With valid schedules: \<open>start\<close> on a running service changes nothing and logs a
  warning, and so does \<open>stop\<close> on a stopped one; starting a stopped service without started
  tasks twice leaves the service running with exactly one backup task and one health-check
  task started; stopping a running service stops every task, and starting it again leaves
  exactly one backup task and one health-check task started.
\<close>

theorem scheduler_two_states:
  assumes "cronValidate e (backupSchedule e)" and "cronValidate e (alertSchedule e)"
  shows "(isRunning s \<longrightarrow>
            start e (s, w) = (None, s, serviceLog LWarning ''Service is already running'' w))
       \<and> (\<not> isRunning s \<longrightarrow>
            stop (s, w) = (s, serviceLog LWarning ''Service is not running'' w))
       \<and> (\<not> isRunning s \<and> firing s = [] \<longrightarrow>
            (let once = start e (s, w); twice = start e (snd once)
             in fst once = None \<and> fst twice = None
              \<and> fst (snd twice) = fst (snd once)
              \<and> isRunning (fst (snd twice))
              \<and> firing (fst (snd twice)) = [BackupJob, HealthJob]))
       \<and> (isRunning s \<longrightarrow>
            (let stopped = stop (s, w); again = start e stopped
             in \<not> isRunning (fst stopped) \<and> firing (fst stopped) = []
              \<and> fst again = None \<and> isRunning (fst (snd again))
              \<and> firing (fst (snd again)) = [BackupJob, HealthJob]))"
proof (intro conjI impI)
  assume "isRunning s"
  then show "start e (s, w) = (None, s, serviceLog LWarning ''Service is already running'' w)"
    by (rule start_running)
next
  assume "\<not> isRunning s"
  then show "stop (s, w) = (s, serviceLog LWarning ''Service is not running'' w)"
    by (rule stop_stopped)
next
  assume a: "\<not> isRunning s \<and> firing s = []"
  let ?once = "start e (s, w)"
  obtain r1 s1 w1 where o: "?once = (r1, s1, w1)" by (cases ?once) auto
  from start_stopped[OF assms, of s w] a o
  have r1: "r1 = None" and run: "isRunning s1"
    and t: "tasks s1 = tasks s @ [(BackupJob, True), (HealthJob, True)]"
    by simp_all
  have f: "firing s1 = [BackupJob, HealthJob]"
    using a t by (simp add: firing_def)
  have tw: "start e (s1, w1) = (None, s1, serviceLog LWarning ''Service is already running'' w1)"
    using run by (rule start_running)
  show "let once = start e (s, w); twice = start e (snd once)
             in fst once = None \<and> fst twice = None
              \<and> fst (snd twice) = fst (snd once)
              \<and> isRunning (fst (snd twice))
              \<and> firing (fst (snd twice)) = [BackupJob, HealthJob]"
    by (simp add: Let_def o tw r1 run f)
next
  assume a: "isRunning s"
  let ?st = "stop (s, w)"
  obtain s1 w1 where o: "?st = (s1, w1)" by (cases ?st) auto
  from stop_running[OF a, of w] o have n: "\<not> isRunning s1" and f0: "firing s1 = []"
    by simp_all
  from start_stopped[OF assms n, of w1]
  have r: "fst (start e (s1, w1)) = None" and run: "isRunning (fst (snd (start e (s1, w1))))"
    and t: "tasks (fst (snd (start e (s1, w1)))) = tasks s1 @ [(BackupJob, True), (HealthJob, True)]"
    by simp_all
  have f: "firing (fst (snd (start e (s1, w1)))) = [BackupJob, HealthJob]"
    using f0 t by (simp add: firing_def)
  show "let stopped = stop (s, w); again = start e stopped
             in \<not> isRunning (fst stopped) \<and> firing (fst stopped) = []
              \<and> fst again = None \<and> isRunning (fst (snd again))
              \<and> firing (fst (snd again)) = [BackupJob, HealthJob]"
    by (simp add: Let_def o n f0 r run f)
qed

theorem scheduler_two_states_witness:
  "cronValidate env0 (backupSchedule env0) \<and> cronValidate env0 (alertSchedule env0)
   \<and> \<not> isRunning service0 \<and> firing service0 = [] \<and> isRunning runningService
   \<and> fst (snd (start env0 (service0, world0))) = runningService
   \<and> fst (snd (start env0 (snd (start env0 (service0, world0))))) = runningService
   \<and> firing runningService = [BackupJob, HealthJob]
   \<and> firing (fst (stop (runningService, world0))) = []
   \<and> firing (fst (snd (start env0 (stop (runningService, world0))))) = [BackupJob, HealthJob]
   \<and> start env0 (runningService, world0)
       = (None, runningService, serviceLog LWarning ''Service is already running'' world0)
   \<and> stop (service0, world0) = (service0, serviceLog LWarning ''Service is not running'' world0)"
proof -
  have v: "cronValidate env0 (backupSchedule env0)" "cronValidate env0 (alertSchedule env0)"
    by (simp_all add: env0_def)
  have s0: "\<not> isRunning service0" "firing service0 = []" "isRunning runningService"
    "firing runningService = [BackupJob, HealthJob]"
    by (simp_all add: service0_def runningService_def firing_def)
  have st: "fst (snd (start env0 (service0, world0))) = runningService"
    using v by (simp add: start_def Let_def service0_def runningService_def)
  note a = scheduler_two_states[OF v, of service0 world0]
  note b = scheduler_two_states[OF v, of runningService world0]
  from a s0 have a3: "fst (snd (start env0 (snd (start env0 (service0, world0)))))
      = fst (snd (start env0 (service0, world0)))"
    by (simp add: Let_def)
  from b s0 have b4: "firing (fst (stop (runningService, world0))) = []"
    "firing (fst (snd (start env0 (stop (runningService, world0))))) = [BackupJob, HealthJob]"
    by (simp_all add: Let_def)
  from b s0 have b1: "start env0 (runningService, world0)
       = (None, runningService, serviceLog LWarning ''Service is already running'' world0)"
    by blast
  from a s0 have a2: "stop (service0, world0)
       = (service0, serviceLog LWarning ''Service is not running'' world0)"
    by blast
  from v s0 st a3 b4 b1 a2 show ?thesis by simp
qed

end
